theory Spec2Isabelle
  imports Complex_Main "HOL-Library.Sublist"
begin

section \<open>Text primitives used by the logging templates\<close>

text \<open>
  Python strings are modelled as \<open>string\<close>. The escape \<open>\033\<close> of the console template
  is the byte 27, the record terminator is the line feed.
\<close>

definition ESC :: char where
  "ESC = CHR 0x1B"

definition NL :: char where
  "NL = CHR 0x0A"

definition digit_char :: "nat \<Rightarrow> char" where
  "digit_char d = ''0123456789'' ! (d mod 10)"

text \<open>\<open>str(n)\<close> for a non-negative integer: its decimal digits.\<close>

function str_nat :: "nat \<Rightarrow> string" where
  "str_nat n = (if n < 10 then [digit_char n] else str_nat (n div 10) @ [digit_char (n mod 10)])"
  by pat_completeness auto
termination
  by (relation "measure (\<lambda>n. n)") auto

declare str_nat.simps [simp del]

text \<open>Zero padding to a minimum width, as \<open>%02d\<close> and \<open>%03d\<close> do for non-negative numbers.\<close>

definition zpad :: "nat \<Rightarrow> nat \<Rightarrow> string" where
  "zpad w n = replicate (w - length (str_nat n)) (CHR ''0'') @ str_nat n"

subsection \<open>\<open>time.strftime\<close>\<close>

text \<open>
  The broken-down local time of a record (\<open>time.localtime(record.created)\<close>) together with
  the millisecond part that \<open>LogRecord\<close> stores in \<open>msecs\<close>.
\<close>

record struct_time =
  tm_year :: nat
  tm_mon :: nat
  tm_mday :: nat
  tm_hour :: nat
  tm_min :: nat
  tm_sec :: nat

definition month_abbr :: "nat \<Rightarrow> string" where
  "month_abbr m =
     (if 1 \<le> m \<and> m \<le> 12
      then [''Jan'', ''Feb'', ''Mar'', ''Apr'', ''May'', ''Jun'',
            ''Jul'', ''Aug'', ''Sep'', ''Oct'', ''Nov'', ''Dec''] ! (m - 1)
      else ''?'')"

text \<open>The directives the two date formats of \<open>logging\<close> and of the source use (C locale).\<close>

definition directive :: "char \<Rightarrow> struct_time \<Rightarrow> string" where
  "directive d t =
     (if d = CHR ''Y'' then str_nat (tm_year t)
      else if d = CHR ''b'' then month_abbr (tm_mon t)
      else if d = CHR ''m'' then zpad 2 (tm_mon t)
      else if d = CHR ''d'' then zpad 2 (tm_mday t)
      else if d = CHR ''H'' then zpad 2 (tm_hour t)
      else if d = CHR ''M'' then zpad 2 (tm_min t)
      else if d = CHR ''S'' then zpad 2 (tm_sec t)
      else if d = CHR ''%'' then ''%''
      else [CHR ''%'', d])"

fun strftime :: "string \<Rightarrow> struct_time \<Rightarrow> string" where
  "strftime [] t = []"
| "strftime [c] t = [c]"
| "strftime (c # d # cs) t =
     (if c = CHR ''%'' then directive d t @ strftime cs t else c # strftime (d # cs) t)"

subsection \<open>The \<open>%\<close> operator with a mapping operand\<close>

text \<open>
  \<open>fmt % record.__dict__\<close>: every conversion of the two templates has the shape
  \<open>%(key)s\<close> or \<open>%(key)03d\<close>. A value is a string or a non-negative number; a missing key
  raises \<open>KeyError\<close> and a malformed template \<open>ValueError\<close>, both rendered as \<open>None\<close>.
\<close>

datatype pyval = PStr string | PNum nat

datatype pstate = Plain | AfterPercent | InKey string | InSpec string string

definition is_flag :: "char \<Rightarrow> bool" where
  "is_flag c = (c \<in> set ''0123456789-+ #'')"

text \<open>A leading \<open>0\<close> flag followed by a width, as in \<open>03\<close>; an empty specification has width 0.\<close>

fun width_of :: "string \<Rightarrow> nat \<Rightarrow> nat" where
  "width_of [] acc = acc"
| "width_of (c # cs) acc = width_of cs (10 * acc + (of_char c - 48))"

definition convert :: "char \<Rightarrow> string \<Rightarrow> pyval \<Rightarrow> string option" where
  "convert c spec v =
     (if c = CHR ''s'' \<and> spec = [] then
        (case v of PStr s \<Rightarrow> Some s | PNum n \<Rightarrow> Some (str_nat n))
      else if c = CHR ''d'' \<and> set spec \<subseteq> set ''0123456789'' then
        (case v of PStr s \<Rightarrow> None
         | PNum n \<Rightarrow> Some (if take 1 spec = ''0'' then zpad (width_of spec 0) n
                            else replicate (width_of spec 0 - length (str_nat n)) (CHR '' '') @ str_nat n))
      else None)"

fun percent :: "pstate \<Rightarrow> (string \<rightharpoonup> pyval) \<Rightarrow> string \<Rightarrow> string option" where
  "percent Plain d [] = Some []"
| "percent Plain d (c # cs) =
     (if c = CHR ''%'' then percent AfterPercent d cs
      else map_option ((#) c) (percent Plain d cs))"
| "percent AfterPercent d [] = None"
| "percent AfterPercent d (c # cs) =
     (if c = CHR ''%'' then map_option ((#) c) (percent Plain d cs)
      else if c = CHR ''('' then percent (InKey []) d cs
      else None)"
| "percent (InKey k) d [] = None"
| "percent (InKey k) d (c # cs) =
     (if c = CHR '')'' then percent (InSpec k []) d cs
      else percent (InKey (k @ [c])) d cs)"
| "percent (InSpec k spec) d [] = None"
| "percent (InSpec k spec) d (c # cs) =
     (if is_flag c then percent (InSpec k (spec @ [c])) d cs
      else (case d k of
              None \<Rightarrow> None
            | Some v \<Rightarrow>
                (case convert c spec v of
                   None \<Rightarrow> None
                 | Some out \<Rightarrow> map_option ((@) out) (percent Plain d cs))))"

definition percent_format :: "string \<Rightarrow> (string \<rightharpoonup> pyval) \<Rightarrow> string option" where
  "percent_format fmt d = percent Plain d fmt"

section \<open>The \<open>logging\<close> facility\<close>

text \<open>
  The part of the standard \<open>logging\<close> package that \<open>logconfig.py\<close> drives: severities,
  records, formatters, handlers and the registry of named loggers. Exceptions are values of
  \<open>pyexc\<close>.
\<close>

datatype pyexc =
    ZeroDivisionError string
  | FileNotFoundError string
  | NotADirectoryError string
  | IsADirectoryError string
  | PermissionError string

definition exc_name :: "pyexc \<Rightarrow> string" where
  "exc_name e = (case e of ZeroDivisionError _ \<Rightarrow> ''ZeroDivisionError''
                 | FileNotFoundError _ \<Rightarrow> ''FileNotFoundError''
                 | NotADirectoryError _ \<Rightarrow> ''NotADirectoryError''
                 | IsADirectoryError _ \<Rightarrow> ''IsADirectoryError''
                 | PermissionError _ \<Rightarrow> ''PermissionError'')"

definition exc_message :: "pyexc \<Rightarrow> string" where
  "exc_message e = (case e of ZeroDivisionError m \<Rightarrow> m
                    | FileNotFoundError m \<Rightarrow> m
                    | NotADirectoryError m \<Rightarrow> m
                    | IsADirectoryError m \<Rightarrow> m
                    | PermissionError m \<Rightarrow> m)"

text \<open>Every exception class of the model derives from \<open>Exception\<close>.\<close>

definition is_Exception :: "pyexc \<Rightarrow> bool" where
  "is_Exception e = True"

definition NOTSET :: nat where "NOTSET = 0"
definition DEBUG :: nat where "DEBUG = 10"
definition INFO :: nat where "INFO = 20"
definition WARNING :: nat where "WARNING = 30"
definition ERROR :: nat where "ERROR = 40"
definition CRITICAL :: nat where "CRITICAL = 50"

definition getLevelName :: "nat \<Rightarrow> string" where
  "getLevelName lvl =
     (if lvl = CRITICAL then ''CRITICAL''
      else if lvl = ERROR then ''ERROR''
      else if lvl = WARNING then ''WARNING''
      else if lvl = INFO then ''INFO''
      else if lvl = DEBUG then ''DEBUG''
      else if lvl = NOTSET then ''NOTSET''
      else ''Level '' @ str_nat lvl)"

text \<open>
  A record carries the attributes the two templates read. \<open>exc_info\<close> is the exception being
  handled together with the text of its stack frames.
\<close>

record LogRecord =
  name :: string
  levelno :: nat
  levelname :: string
  msg :: string
  created :: struct_time
  msecs :: nat
  exc_info :: "(pyexc \<times> string) option"

definition makeRecord ::
  "string \<Rightarrow> nat \<Rightarrow> string \<Rightarrow> (pyexc \<times> string) option \<Rightarrow> struct_time \<times> nat \<Rightarrow> LogRecord" where
  "makeRecord n lvl m ei now =
     \<lparr>name = n, levelno = lvl, levelname = getLevelName lvl, msg = m,
      created = fst now, msecs = snd now, exc_info = ei\<rparr>"

text \<open>\<open>record.__dict__\<close> once \<open>message\<close> and \<open>asctime\<close> have been stored in it.\<close>

definition record_dict :: "LogRecord \<Rightarrow> string \<Rightarrow> (string \<rightharpoonup> pyval)" where
  "record_dict r asctime =
     [''name'' \<mapsto> PStr (name r), ''levelno'' \<mapsto> PNum (levelno r),
      ''levelname'' \<mapsto> PStr (levelname r), ''msg'' \<mapsto> PStr (msg r),
      ''msecs'' \<mapsto> PNum (msecs r), ''message'' \<mapsto> PStr (msg r),
      ''asctime'' \<mapsto> PStr asctime]"

subsection \<open>Formatters\<close>

datatype formatter =
    Formatter (fmt: string) (datefmt: "string option")
  | ColoredFormatter (fmt: string) (datefmt: "string option") (log_colors: "(string \<times> string) list")

definition default_time_format :: string where
  "default_time_format = ''%Y-%m-%d %H:%M:%S''"

text \<open>
  \<open>Formatter.formatTime\<close>: a non-empty \<open>datefmt\<close> goes to \<open>strftime\<close>; otherwise the default
  format is used and \<open>'%s,%03d' % (s, record.msecs)\<close> appends the milliseconds.
\<close>

definition formatTime :: "formatter \<Rightarrow> LogRecord \<Rightarrow> string" where
  "formatTime f r =
     (case datefmt f of
        Some df \<Rightarrow>
          (if df \<noteq> [] then strftime df (created r)
           else strftime default_time_format (created r) @ '','' @ zpad 3 (msecs r))
      | None \<Rightarrow> strftime default_time_format (created r) @ '','' @ zpad 3 (msecs r))"

definition formatException :: "pyexc \<times> string \<Rightarrow> string" where
  "formatException ei =
     ''Traceback (most recent call last):'' @ [NL] @ snd ei
       @ exc_name (fst ei) @ '': '' @ exc_message (fst ei)"

text \<open>
  \<open>colorlog\<close>: \<open>parse_colors\<close> joins the escape codes of a comma-separated list of colour
  names, looked up in the escape-code table \<open>codes\<close> that is in force (an unknown name raises
  \<open>KeyError\<close>).
\<close>

fun split_on :: "char \<Rightarrow> string \<Rightarrow> string list" where
  "split_on sep [] = [[]]"
| "split_on sep (c # cs) =
     (if c = sep then [] # split_on sep cs
      else (case split_on sep cs of [] \<Rightarrow> [[c]] | w # ws \<Rightarrow> (c # w) # ws))"

fun join_codes :: "(string \<rightharpoonup> string) \<Rightarrow> string list \<Rightarrow> string option" where
  "join_codes codes [] = Some []"
| "join_codes codes (n # ns) =
     (if n = [] then join_codes codes ns
      else (case codes n of
              None \<Rightarrow> None
            | Some c \<Rightarrow> map_option ((@) c) (join_codes codes ns)))"

definition parse_colors :: "(string \<rightharpoonup> string) \<Rightarrow> string \<Rightarrow> string option" where
  "parse_colors codes s = join_codes codes (split_on (CHR '','') s)"

definition get_escape_code :: "(string \<rightharpoonup> string) \<Rightarrow> (string \<times> string) list \<Rightarrow> string \<Rightarrow> string option" where
  "get_escape_code codes colors item =
     parse_colors codes (case map_of colors item of None \<Rightarrow> [] | Some c \<Rightarrow> c)"

text \<open>
  \<open>ColoredFormatter._escape_code_map\<close>: the table, with \<open>log_color\<close> added unless the table
  already has that key.
\<close>

definition escape_code_map ::
  "(string \<rightharpoonup> string) \<Rightarrow> (string \<times> string) list \<Rightarrow> string \<Rightarrow> (string \<rightharpoonup> string) option" where
  "escape_code_map codes colors item =
     (case get_escape_code codes colors item of
        None \<Rightarrow> None
      | Some lc \<Rightarrow>
          Some (case codes ''log_color'' of
                  None \<Rightarrow> codes(''log_color'' \<mapsto> lc)
                | Some _ \<Rightarrow> codes))"

definition append_reset :: "string \<Rightarrow> string \<Rightarrow> string" where
  "append_reset message reset_code =
     (if \<not> suffix reset_code message then message @ reset_code else message)"

text \<open>
  \<open>formatMessage\<close>. The plain formatter applies the template to the record's dictionary;
  the coloured one first overlays the escape codes on the dictionary (\<open>ColoredRecord\<close>) and
  afterwards appends the reset code unless the text already ends with it.
\<close>

definition formatMessage :: "(string \<rightharpoonup> string) \<Rightarrow> formatter \<Rightarrow> LogRecord \<Rightarrow> string option" where
  "formatMessage codes f r =
     (case f of
        Formatter t df \<Rightarrow> percent_format t (record_dict r (formatTime f r))
      | ColoredFormatter t df colors \<Rightarrow>
          (case escape_code_map codes colors (levelname r) of
             None \<Rightarrow> None
           | Some escapes \<Rightarrow>
               (case percent_format t (record_dict r (formatTime f r) ++ (map_option PStr \<circ> escapes)) of
                  None \<Rightarrow> None
                | Some message \<Rightarrow>
                    (case escapes ''reset'' of
                       None \<Rightarrow> None
                     | Some reset_code \<Rightarrow> Some (append_reset message reset_code)))))"

text \<open>\<open>Formatter.format\<close>: the message, then the traceback on a line of its own.\<close>

definition format_record :: "(string \<rightharpoonup> string) \<Rightarrow> formatter \<Rightarrow> LogRecord \<Rightarrow> string option" where
  "format_record codes f r =
     (case formatMessage codes f r of
        None \<Rightarrow> None
      | Some s \<Rightarrow>
          (case exc_info r of
             None \<Rightarrow> Some s
           | Some ei \<Rightarrow>
               Some ((if s \<noteq> [] \<and> last s = NL then s else s @ [NL]) @ formatException ei)))"

subsection \<open>Handlers, loggers and the process state\<close>

datatype std_stream = Stdout | Stderr

text \<open>
  A handler object. \<open>hid\<close> is its identity: \<open>Logger.addHandler\<close> compares handlers by
  identity, and every constructor call makes a new object.
\<close>

datatype handler =
    FileHandler (hid: nat) (baseFilename: string) (mode: string) (encoding: string)
      (hlevel: nat) (hformatter: "formatter option")
  | StreamHandler (hid: nat) (stream: std_stream) (hlevel: nat) (hformatter: "formatter option")

text \<open>
  A logger: its own level, its handlers in the order of attachment, and the flag that lets
  records travel on to the handlers of its ancestors.
\<close>

record logger =
  level :: nat
  handlers :: "handler list"
  propagate :: bool

text \<open>
  The state of the process and of its surroundings: the directories that exist, the
  directories the process may not search, the directories and files it may not write, the
  files with their contents, the position of the file stream each file handler owns, what
  has been written to the two standard streams, the loggers by name (the root logger under
  \<open>root\<close>), the next object identity, and the escape-code table of \<open>colorlog\<close> that is in
  force. Paths are relative to the working directory, which the empty path names.
\<close>

record world =
  dirs :: "string set"
  no_search :: "string set"
  no_write :: "string set"
  files :: "string \<rightharpoonup> string"
  offsets :: "nat \<Rightarrow> nat"
  stderr :: string
  stdout :: string
  loggerDict :: "string \<rightharpoonup> logger"
  next_id :: nat
  escape_codes :: "string \<rightharpoonup> string"

text \<open>\<open>os.path.dirname\<close>: everything before the last slash.\<close>

definition dirname :: "string \<Rightarrow> string" where
  "dirname p = rev (drop 1 (dropWhile (\<lambda>c. c \<noteq> CHR ''/'') (rev p)))"

text \<open>
  \<open>open(path, mode, encoding=...)\<close> for the modes \<open>'w'\<close> and \<open>'a'\<close>, as the operating system
  decides it. The directory of the path must exist (\<open>FileNotFoundError\<close>), be a directory
  (\<open>NotADirectoryError\<close>) and be searchable. A path that names a directory cannot be opened
  for writing (\<open>IsADirectoryError\<close>). An existing file needs write permission on the file
  and not on its directory; a missing file is created, writable by the process, and needs
  write permission on the directory. Mode \<open>'w'\<close> discards the previous contents. Quotas,
  read-only file systems and symbolic links are not considered.
\<close>

definition builtin_open :: "string \<Rightarrow> string \<Rightarrow> world \<Rightarrow> pyexc + world" where
  "builtin_open path md w =
     (let d = dirname path
      in if d \<noteq> [] \<and> d \<notin> dirs w then
           (if files w d \<noteq> None then Inl (NotADirectoryError path)
            else Inl (FileNotFoundError path))
         else if d \<in> no_search w then Inl (PermissionError path)
         else if path \<in> dirs w then Inl (IsADirectoryError path)
         else (case files w path of
                 Some c \<Rightarrow>
                   (if path \<in> no_write w then Inl (PermissionError path)
                    else Inr (w\<lparr>files := (files w)(path \<mapsto> (if md = ''w'' then [] else c))\<rparr>))
               | None \<Rightarrow>
                   (if d \<in> no_write w then Inl (PermissionError path)
                    else Inr (w\<lparr>files := (files w)(path \<mapsto> []),
                               no_write := no_write w - {path}\<rparr>))))"

text \<open>
  \<open>logging.FileHandler(filename, mode, encoding)\<close> opens the file at once (\<open>delay=False\<close>);
  a new handler has level \<open>NOTSET\<close> and no formatter.
\<close>

definition new_FileHandler ::
  "string \<Rightarrow> string \<Rightarrow> string \<Rightarrow> world \<Rightarrow> pyexc + (world \<times> handler)" where
  "new_FileHandler filename enc md w =
     (case builtin_open filename md w of
        Inl e \<Rightarrow> Inl e
      | Inr w' \<Rightarrow>
          Inr (w'\<lparr>offsets := (offsets w')(next_id w' := 0), next_id := Suc (next_id w')\<rparr>,
               FileHandler (next_id w') filename md enc NOTSET None))"

text \<open>\<open>logging.StreamHandler(stream=None)\<close>: without a stream it takes \<open>sys.stderr\<close>.\<close>

definition new_StreamHandler :: "std_stream option \<Rightarrow> world \<Rightarrow> world \<times> handler" where
  "new_StreamHandler s w =
     (w\<lparr>next_id := Suc (next_id w)\<rparr>,
      StreamHandler (next_id w) (case s of None \<Rightarrow> Stderr | Some s' \<Rightarrow> s') NOTSET None)"

fun handler_setLevel :: "nat \<Rightarrow> handler \<Rightarrow> handler" where
  "handler_setLevel lvl (FileHandler i fn md enc l f) = FileHandler i fn md enc lvl f"
| "handler_setLevel lvl (StreamHandler i s l f) = StreamHandler i s lvl f"

fun setFormatter :: "formatter \<Rightarrow> handler \<Rightarrow> handler" where
  "setFormatter fm (FileHandler i fn md enc l f) = FileHandler i fn md enc l (Some fm)"
| "setFormatter fm (StreamHandler i s l f) = StreamHandler i s l (Some fm)"

text \<open>
  The root logger exists from the start, with level \<open>WARNING\<close> and no handlers; until it is
  listed in \<open>loggerDict\<close> it has these defaults.
\<close>

definition default_root :: logger where
  "default_root = \<lparr>level = WARNING, handlers = [], propagate = True\<rparr>"

definition root_logger :: "(string \<rightharpoonup> logger) \<Rightarrow> logger" where
  "root_logger d = (case d ''root'' of None \<Rightarrow> default_root | Some l \<Rightarrow> l)"

text \<open>
  \<open>logging.getLogger(name)\<close> returns the registered logger or registers a new one (level
  \<open>NOTSET\<close>, no handlers, \<open>propagate\<close> set); the name \<open>root\<close> gives the root logger. A logger
  is referred to by its name, which is not empty.
\<close>

definition getLogger :: "string \<Rightarrow> world \<Rightarrow> world \<times> string" where
  "getLogger n w =
     (case loggerDict w n of
        Some l \<Rightarrow> (w, n)
      | None \<Rightarrow>
          (w\<lparr>loggerDict := (loggerDict w)(n \<mapsto>
                (if n = ''root'' then default_root
                 else \<lparr>level = NOTSET, handlers = [], propagate = True\<rparr>))\<rparr>, n))"

text \<open>
  The parent of a logger, as \<open>Manager._fixupParents\<close> and \<open>_fixupChildren\<close> maintain it: the
  nearest registered logger among the prefixes of the name that end before a dot, and the
  root logger if there is none. \<open>dotted_prefixes\<close> takes the name reversed and lists these
  prefixes, longest first, the way the search with \<open>rfind\<close> finds them: after a dot at
  position \<open>i\<close> it looks on below \<open>i - 1\<close>, and a dot at position 0 gives no prefix.
\<close>

fun dotted_prefixes :: "string \<Rightarrow> string list" where
  "dotted_prefixes [] = []"
| "dotted_prefixes [c] = []"
| "dotted_prefixes (c # d # r) =
     (if c = CHR ''.'' then rev (d # r) # dotted_prefixes r else dotted_prefixes (d # r))"

definition parent_name :: "(string \<rightharpoonup> logger) \<Rightarrow> string \<Rightarrow> string" where
  "parent_name d k =
     (case filter (\<lambda>p. d p \<noteq> None) (dotted_prefixes (rev k)) of
        [] \<Rightarrow> ''root''
      | p # ps \<Rightarrow> p)"

text \<open>A registered logger followed by its ancestors, up to the root logger.\<close>

function ancestry :: "(string \<rightharpoonup> logger) \<Rightarrow> string \<Rightarrow> logger list" where
  "ancestry d k =
     (if k = ''root'' then [root_logger d]
      else (case d k of
              None \<Rightarrow> []
            | Some l \<Rightarrow> l # ancestry d (parent_name d k)))"
  by pat_completeness auto
termination
proof (relation "measure (\<lambda>(d, k). if k = ''root'' then 0 else Suc (length k))")
  show "wf (measure (\<lambda>(d, k). if k = ''root'' then 0 else Suc (length k)))"
    by simp
next
  fix d :: "string \<rightharpoonup> logger" and k :: string and l :: logger
  assume k: "k \<noteq> ''root''"
  have shorter: "length p < length r" if "p \<in> set (dotted_prefixes r)" for p r
    using that by (induction r rule: dotted_prefixes.induct) (auto split: if_splits)
  have "parent_name d k = ''root'' \<or> length (parent_name d k) < length k"
  proof (cases "filter (\<lambda>p. d p \<noteq> None) (dotted_prefixes (rev k))")
    case Nil
    then show ?thesis by (simp add: parent_name_def)
  next
    case (Cons p ps)
    then have "p \<in> set (filter (\<lambda>p. d p \<noteq> None) (dotted_prefixes (rev k)))"
      by simp
    then have "p \<in> set (dotted_prefixes (rev k))"
      by simp
    then have "length p < length k"
      using shorter [of p "rev k"] by simp
    with Cons show ?thesis by (simp add: parent_name_def)
  qed
  with k show "((d, parent_name d k), (d, k))
                 \<in> measure (\<lambda>(d, k). if k = ''root'' then 0 else Suc (length k))"
    by auto
qed

declare ancestry.simps [simp del]

text \<open>
  \<open>Logger.getEffectiveLevel\<close>: the first level along the ancestry that is set. The handlers
  a record reaches (\<open>Logger.callHandlers\<close>): those of the logger, then those of each
  ancestor in turn, as long as \<open>propagate\<close> is set on the way.
\<close>

fun getEffectiveLevel :: "logger list \<Rightarrow> nat" where
  "getEffectiveLevel [] = NOTSET"
| "getEffectiveLevel (l # ls) = (if level l \<noteq> NOTSET then level l else getEffectiveLevel ls)"

fun chain_handlers :: "logger list \<Rightarrow> handler list" where
  "chain_handlers [] = []"
| "chain_handlers (l # ls) = handlers l @ (if propagate l then chain_handlers ls else [])"

definition setLevel :: "string \<Rightarrow> nat \<Rightarrow> world \<Rightarrow> world" where
  "setLevel lg lvl w =
     (case loggerDict w lg of
        None \<Rightarrow> w
      | Some l \<Rightarrow> w\<lparr>loggerDict := (loggerDict w)(lg \<mapsto> l\<lparr>level := lvl\<rparr>)\<rparr>)"

text \<open>\<open>Logger.addHandler\<close>: appended unless this very object is attached already.\<close>

definition addHandler :: "string \<Rightarrow> handler \<Rightarrow> world \<Rightarrow> world" where
  "addHandler lg h w =
     (case loggerDict w lg of
        None \<Rightarrow> w
      | Some l \<Rightarrow>
          (if hid h \<in> set (map hid (handlers l)) then w
           else w\<lparr>loggerDict := (loggerDict w)(lg \<mapsto> l\<lparr>handlers := handlers l @ [h]\<rparr>)\<rparr>))"

subsection \<open>Emitting a record\<close>

text \<open>
  A write of \<open>data\<close> at position \<open>pos\<close> of a file: a position beyond the end leaves a gap of
  zero bytes, bytes already there are overwritten.
\<close>

definition write_at :: "nat \<Rightarrow> string \<Rightarrow> string \<Rightarrow> string" where
  "write_at pos data content =
     take pos (content @ replicate (pos - length content) (CHR 0x00)) @ data
       @ drop (pos + length data) content"

text \<open>
  \<open>stream.write(...)\<close> followed by \<open>flush()\<close>. A file stream opened with \<open>'a'\<close> writes at the
  end of the file, any other at its own position; a file that is no longer listed counts
  as empty.
\<close>

definition stream_write :: "handler \<Rightarrow> string \<Rightarrow> world \<Rightarrow> world" where
  "stream_write h data w =
     (case h of
        StreamHandler i s l f \<Rightarrow>
          (case s of
             Stderr \<Rightarrow> w\<lparr>stderr := stderr w @ data\<rparr>
           | Stdout \<Rightarrow> w\<lparr>stdout := stdout w @ data\<rparr>)
      | FileHandler i fn md enc l f \<Rightarrow>
          (let content = (case files w fn of None \<Rightarrow> [] | Some c \<Rightarrow> c);
               pos = (if md = ''a'' then length content else offsets w i)
           in w\<lparr>files := (files w)(fn \<mapsto> write_at pos data content),
                offsets := (offsets w)(i := pos + length data)\<rparr>))"

definition defaultFormatter :: formatter where
  "defaultFormatter = Formatter ''%(message)s'' None"

definition handler_format :: "(string \<rightharpoonup> string) \<Rightarrow> handler \<Rightarrow> LogRecord \<Rightarrow> string option" where
  "handler_format codes h r =
     format_record codes (case hformatter h of None \<Rightarrow> defaultFormatter | Some f \<Rightarrow> f) r"

text \<open>
  \<open>Handler.handleError\<close> reports a failed emission on \<open>sys.stderr\<close>; only the first line of
  its report is kept here.
\<close>

definition handleError :: "world \<Rightarrow> world" where
  "handleError w = w\<lparr>stderr := stderr w @ ''--- Logging error ---'' @ [NL]\<rparr>"

text \<open>\<open>StreamHandler.emit\<close>: format, write the text and the terminator, flush.\<close>

definition emit :: "handler \<Rightarrow> LogRecord \<Rightarrow> world \<Rightarrow> world" where
  "emit h r w =
     (case handler_format (escape_codes w) h r of
        None \<Rightarrow> handleError w
      | Some m \<Rightarrow> stream_write h (m @ [NL]) w)"

text \<open>\<open>Logger.callHandlers\<close>, over the handlers of the logger, in the order of attachment.\<close>

fun callHandlers :: "handler list \<Rightarrow> LogRecord \<Rightarrow> world \<Rightarrow> world" where
  "callHandlers [] r w = w"
| "callHandlers (h # hs) r w =
     callHandlers hs r (if hlevel h \<le> levelno r then emit h r w else w)"

text \<open>
  The handler of last resort: when a record finds no handler at all, on the logger or on
  its ancestors, \<open>logging\<close> hands it to a \<open>sys.stderr\<close> handler of level \<open>WARNING\<close> that has no
  formatter.
\<close>

definition lastResort :: handler where
  "lastResort = StreamHandler 0 Stderr WARNING None"

text \<open>
  \<open>Logger._log\<close> behind \<open>isEnabledFor\<close>: if the effective level admits the severity, the
  record is created with the current time \<open>now\<close> and handed to the handlers of the logger
  and of its ancestors. \<open>logging.disable\<close> is never called and no logger is disabled.
\<close>

definition logger_log :: "string \<Rightarrow> nat \<Rightarrow> string \<Rightarrow> (pyexc \<times> string) option \<Rightarrow> struct_time \<times> nat \<Rightarrow> world \<Rightarrow> world" where
  "logger_log lg lvl m ei now w =
     (let chain = ancestry (loggerDict w) lg
      in if chain = [] then w
         else if getEffectiveLevel chain \<le> lvl
         then callHandlers
                (if chain_handlers chain = [] then [lastResort] else chain_handlers chain)
                (makeRecord lg lvl m ei now) w
         else w)"

definition debug :: "string \<Rightarrow> string \<Rightarrow> struct_time \<times> nat \<Rightarrow> world \<Rightarrow> world" where
  "debug lg m now w = logger_log lg DEBUG m None now w"

definition info :: "string \<Rightarrow> string \<Rightarrow> struct_time \<times> nat \<Rightarrow> world \<Rightarrow> world" where
  "info lg m now w = logger_log lg INFO m None now w"

definition warning :: "string \<Rightarrow> string \<Rightarrow> struct_time \<times> nat \<Rightarrow> world \<Rightarrow> world" where
  "warning lg m now w = logger_log lg WARNING m None now w"

definition error :: "string \<Rightarrow> string \<Rightarrow> struct_time \<times> nat \<Rightarrow> world \<Rightarrow> world" where
  "error lg m now w = logger_log lg ERROR m None now w"

definition critical :: "string \<Rightarrow> string \<Rightarrow> struct_time \<times> nat \<Rightarrow> world \<Rightarrow> world" where
  "critical lg m now w = logger_log lg CRITICAL m None now w"

text \<open>\<open>Logger.exception\<close>: severity \<open>ERROR\<close>, with the exception being handled attached.\<close>

definition exception :: "string \<Rightarrow> string \<Rightarrow> pyexc \<times> string \<Rightarrow> struct_time \<times> nat \<Rightarrow> world \<Rightarrow> world" where
  "exception lg m ei now w = logger_log lg ERROR m (Some ei) now w"

section \<open>\<open>src/core/logconfig.py\<close>\<close>

record Log =
  log_name :: string

text \<open>The two class attributes, built once when the class body runs.\<close>

definition file_formatter :: formatter where
  "file_formatter = Formatter ''%(levelname)s:    %(asctime)s - %(name)s - %(message)s'' None"

text \<open>The console template: two adjacent string literals, joined by the parser.\<close>

definition stream_template :: string where
  "stream_template =
     (''%(log_color)s%(levelname)s%(reset)s:    [%(asctime)s,'' @ [CHR 0x1B] @ ''[1;90m%(msecs)03d'' @ [CHR 0x1B] @ ''[0m] - {{'' @ [CHR 0x1B] @ ''[38;2;235;9;220m%(name)s'' @ [CHR 0x1B] @ ''[0m}} @'')
     @ ''%(log_color)s%(message)s''"

definition stream_formatter :: formatter where
  "stream_formatter =
     ColoredFormatter stream_template (Some ''%Y/%b/%d %H:%M:%S'')
       [(''DEBUG'', ''cyan''),
        (''INFO'', ''green''),
        (''WARNING'', ''yellow''),
        (''ERROR'', ''red''),
        (''CRITICAL'', ''bold_red'')]"

text \<open>
  \<open>def __init__(self, log_name=__name__)\<close>. The default is evaluated once, when the \<open>def\<close>
  statement runs inside \<open>logconfig.py\<close>: \<open>module_name\<close> is the value \<open>__name__\<close> has in that
  module. \<open>caller\<close> is the \<open>__name__\<close> of the module that calls the constructor, \<open>arg\<close> the
  argument it passes, if any.
\<close>

definition Log_init :: "string \<Rightarrow> string \<Rightarrow> string option \<Rightarrow> Log" where
  "Log_init module_name caller arg =
     \<lparr>log_name = (case arg of None \<Rightarrow> module_name | Some n \<Rightarrow> n)\<rparr>"

text \<open>
  \<open>Log.app_logger\<close>. The result is the exception that escapes or the logger, paired with
  the state the call leaves behind.
\<close>

definition app_logger :: "Log \<Rightarrow> world \<Rightarrow> (pyexc + string) \<times> world" where
  "app_logger self w =
     (let (w1, logger) = getLogger (log_name self) w;
          w2 = setLevel logger DEBUG w1
      in case new_FileHandler ''logs/app.log'' ''utf-8'' ''w'' w2 of
           Inl e \<Rightarrow> (Inl e, w2)
         | Inr (w3, file_handler) \<Rightarrow>
             (let file_handler = handler_setLevel DEBUG file_handler;
                  (w4, stream_handler) = new_StreamHandler None w3;
                  stream_handler = handler_setLevel DEBUG stream_handler;
                  file_handler = setFormatter file_formatter file_handler;
                  stream_handler = setFormatter stream_formatter stream_handler;
                  w5 = addHandler logger file_handler w4;
                  w6 = addHandler logger stream_handler w5
              in (Inr logger, w6)))"

text \<open>\<open>a / b\<close> on integers.\<close>

definition truediv :: "int \<Rightarrow> int \<Rightarrow> pyexc + real" where
  "truediv a b =
     (if b = 0 then Inl (ZeroDivisionError ''division by zero'')
      else Inr (real_of_int a / real_of_int b))"

text \<open>
  The block under \<open>if __name__ == "__main__"\<close>. \<open>clock i\<close> is the local time at which the
  \<open>i\<close>-th record is created, \<open>frames\<close> the stack-frame text of the traceback of \<open>1/0\<close>.
\<close>

definition main_block ::
  "string \<Rightarrow> (nat \<Rightarrow> struct_time \<times> nat) \<Rightarrow> string \<Rightarrow> world \<Rightarrow> (pyexc + unit) \<times> world" where
  "main_block dunder_name clock frames w =
     (case app_logger (Log_init dunder_name dunder_name (Some dunder_name)) w of
        (Inl e, w') \<Rightarrow> (Inl e, w')
      | (Inr logger, w0) \<Rightarrow>
          (let w1 = debug logger ''debug message'' (clock 0) w0;
               w2 = info logger ''info message'' (clock 1) w1;
               w3 = warning logger ''warning message'' (clock 2) w2;
               w4 = error logger ''error message'' (clock 3) w3;
               w5 = critical logger ''critical message'' (clock 4) w4
           in (case truediv 1 0 of
                 Inl e \<Rightarrow>
                   (if is_Exception e
                    then (Inr (), exception logger ''unknown error'' (e, frames) (clock 5) w5)
                    else (Inl e, w5))
               | Inr q \<Rightarrow> (Inr (), w5))))"

text \<open>Running the module: the class body has no effect on the state, the guard decides.\<close>

definition logconfig_module ::
  "string \<Rightarrow> (nat \<Rightarrow> struct_time \<times> nat) \<Rightarrow> string \<Rightarrow> world \<Rightarrow> (pyexc + unit) \<times> world" where
  "logconfig_module dunder_name clock frames w =
     (if dunder_name = ''__main__'' then main_block dunder_name clock frames w else (Inr (), w))"

section \<open>\<open>src/project/utils/dev.py\<close>\<close>

text \<open>
  What \<open>rich\<close> is asked to draw: renderables handed to \<open>console.print\<close>, in order. Non-ASCII
  characters are the bytes of their UTF-8 encoding.
\<close>

record column =
  header :: string
  justify :: string
  style :: string
  no_wrap :: bool

record table =
  title :: "string option"
  show_lines :: bool
  title_style :: "string option"
  columns :: "column list"
  rows :: "string list list"

datatype renderable =
    Text string string
  | Table table
  | Align_center renderable

record console =
  force_terminal :: bool
  width :: "nat option"
  printed :: "renderable list"

definition Console :: "bool \<Rightarrow> nat option \<Rightarrow> console" where
  "Console ft wd = \<lparr>force_terminal = ft, width = wd, printed = []\<rparr>"

definition console_print :: "renderable \<Rightarrow> console \<Rightarrow> console" where
  "console_print r c = c\<lparr>printed := printed c @ [r]\<rparr>"

definition new_Table :: table where
  "new_Table = \<lparr>title = None, show_lines = False, title_style = None, columns = [], rows = []\<rparr>"

definition add_column :: "string \<Rightarrow> string \<Rightarrow> string \<Rightarrow> bool \<Rightarrow> table \<Rightarrow> table" where
  "add_column h j st nw t =
     t\<lparr>columns := columns t @ [\<lparr>header = h, justify = j, style = st, no_wrap = nw\<rparr>]\<rparr>"

definition add_row :: "string list \<Rightarrow> table \<Rightarrow> table" where
  "add_row cells t = t\<lparr>rows := rows t @ [cells]\<rparr>"

text \<open>\<open>sep.join(xs)\<close>.\<close>

fun join :: "string \<Rightarrow> string list \<Rightarrow> string" where
  "join sep [] = []"
| "join sep [x] = x"
| "join sep (x # y # ys) = x @ sep @ join sep (y # ys)"

definition BANNER :: "string list" where
  "BANNER =
     ['' _____           _ _'',
      ''|  __ '' @ [CHR 0x5C] @ ''         | | |'',
      ''| |__) |__ _  __| | |__   ___'',
      ''|  _  // _'' @ [CHR 0x60] @ '' |/ _'' @ [CHR 0x60] @ '' | '' @ [CHR 0x27] @ ''_ '' @ [CHR 0x5C] @ '' / _ '' @ [CHR 0x5C],
      ''| | '' @ [CHR 0x5C] @ '' '' @ [CHR 0x5C] @ '' (_| | (_| | | | |  __/'',
      ''|_|  '' @ [CHR 0x5C] @ ''_'' @ [CHR 0x5C] @ ''__,_|'' @ [CHR 0x5C] @ ''__,_|_| |_|'' @ [CHR 0x5C] @ ''___| '' @ [CHR 0xE2, CHR 0x80, CHR 0xA2, CHR 0xE2, CHR 0x80, CHR 0xA2, CHR 0xE2, CHR 0x80, CHR 0xA2],
      [CHR 0x0A]]"

definition logo :: "console \<Rightarrow> console" where
  "logo c = console_print (Align_center (Text (join [NL] BANNER) ''bold magenta'')) c"

definition banner :: "console \<Rightarrow> console" where
  "banner c =
     (let c1 = logo c;
          t = new_Table;
          t = t\<lparr>title := Some ([CHR 0xF0, CHR 0x9F, CHR 0x9A, CHR 0x80] @ '' DEVELOPER INFO'')\<rparr>;
          t = t\<lparr>show_lines := True\<rparr>;
          t = t\<lparr>title_style := Some ''bold underline yellow on black''\<rparr>;
          t = add_column ''PLATFORM'' ''center'' ''cyan'' True t;
          t = add_column ''USERNAME / URL'' ''left'' ''magenta'' False t;
          t = add_row [''GITHUB'', ''Akhil-Biswas''] t;
          t = add_row [''GITLAB'', ''Akhil-Biswas''] t;
          t = add_row [''LINKEDIN'', ''akhilbiswas-radhe''] t;
          t = add_row [''WEBSITE'', ''akhil-biswas.netlify.app''] t
      in console_print (Align_center (Table t)) c1)"

text \<open>
  The module body: the console is created, the two functions are defined, and \<open>banner()\<close>
  is called, whatever \<open>__name__\<close> is.
\<close>

definition dev_module :: "string \<Rightarrow> console" where
  "dev_module dunder_name = banner (Console True None)"

section \<open>Observations and a reference scenario\<close>

text \<open>The handlers attached to a named logger; none if the name is not registered.\<close>

definition handlers_of :: "world \<Rightarrow> string \<Rightarrow> handler list" where
  "handlers_of w lg = (case loggerDict w lg of None \<Rightarrow> [] | Some l \<Rightarrow> handlers l)"

text \<open>
  Object identities are handed out in increasing order, so every handler attached to a
  logger has an identity below \<open>next_id\<close>. A state without handlers satisfies this, and
  \<open>app_logger\<close> keeps it, whether it succeeds or fails.
\<close>

definition ids_below :: "world \<Rightarrow> string \<Rightarrow> bool" where
  "ids_below w lg = (\<forall>h \<in> set (handlers_of w lg). hid h < next_id w)"

text \<open>
  The handlers a record logged on a logger reaches beyond the logger's own: those of its
  ancestors, if the logger lets records travel on.
\<close>

definition inherited_handlers :: "world \<Rightarrow> string \<Rightarrow> handler list" where
  "inherited_handlers w lg =
     (case ancestry (loggerDict w) lg of
        [] \<Rightarrow> []
      | l # ls \<Rightarrow> (if propagate l then chain_handlers ls else []))"

text \<open>
  The log file can be opened: \<open>logs/\<close> is a directory that can be searched, and either
  \<open>logs/app.log\<close> is a file the process may write, or it does not exist and the process may
  write the directory.
\<close>

definition can_open :: "world \<Rightarrow> bool" where
  "can_open w =
     (''logs'' \<in> dirs w \<and> ''logs'' \<notin> no_search w \<and> ''logs/app.log'' \<notin> dirs w \<and>
      (case files w ''logs/app.log'' of
         Some c \<Rightarrow> ''logs/app.log'' \<notin> no_write w
       | None \<Rightarrow> ''logs'' \<notin> no_write w))"

text \<open>The error of \<open>open\<close> when the log file cannot be opened.\<close>

definition open_error :: "world \<Rightarrow> pyexc" where
  "open_error w =
     (if ''logs'' \<notin> dirs w then
        (if files w ''logs'' \<noteq> None then NotADirectoryError ''logs/app.log''
         else FileNotFoundError ''logs/app.log'')
      else if ''logs'' \<in> no_search w then PermissionError ''logs/app.log''
      else if ''logs/app.log'' \<in> dirs w then IsADirectoryError ''logs/app.log''
      else PermissionError ''logs/app.log'')"

text \<open>Whether a handler writes to \<open>sys.stdout\<close>.\<close>

fun to_stdout :: "handler \<Rightarrow> bool" where
  "to_stdout (StreamHandler i s l f) = (s = Stdout)"
| "to_stdout (FileHandler i fn md enc l f) = False"

text \<open>No handler attached to any logger writes to \<open>sys.stdout\<close>.\<close>

definition no_stdout_handler :: "world \<Rightarrow> bool" where
  "no_stdout_handler w = (\<forall>k. \<forall>h \<in> set (handlers_of w k). \<not> to_stdout h)"

text \<open>
  The text the file formatter produces for a record: the message line, and the traceback
  below it when the record carries an exception.
\<close>

definition file_line :: "LogRecord \<Rightarrow> string" where
  "file_line r =
     (let s = levelname r @ '':    '' @ formatTime file_formatter r @ '' - '' @ name r
              @ '' - '' @ msg r
      in case exc_info r of
           None \<Rightarrow> s
         | Some ei \<Rightarrow> (if s \<noteq> [] \<and> last s = NL then s else s @ [NL]) @ formatException ei)"

text \<open>
  The table of \<open>colorlog\<close> names colours and styles only: none of its keys is an attribute
  of the record that the console template reads, and \<open>log_color\<close> is not among them.
\<close>

definition no_clash :: "(string \<rightharpoonup> string) \<Rightarrow> bool" where
  "no_clash codes =
     (\<forall>k \<in> set [''levelname'', ''asctime'', ''msecs'', ''name'', ''message'', ''log_color''].
        codes k = None)"

text \<open>
  What a terminal shows of a line: the text without its SGR sequences (from the escape
  byte up to the closing \<open>m\<close>).
\<close>

fun visible :: "bool \<Rightarrow> string \<Rightarrow> string" where
  "visible esc [] = []"
| "visible esc (c # cs) =
     (if esc then (if c = CHR ''m'' then visible False cs else visible True cs)
      else if c = CHR 0x1B then visible True cs
      else c # visible False cs)"

text \<open>
  The console layout as the specification words it,
  \<open>LEVEL:    [TIMESTAMP,MSEC] - {LOGGER_NAME} @ MESSAGE\<close>, for comparison with what the
  template of the source produces.
\<close>

definition spec_console_layout :: "LogRecord \<Rightarrow> string \<Rightarrow> string" where
  "spec_console_layout r ts =
     levelname r @ '':    ['' @ ts @ '','' @ zpad 3 (msecs r) @ ''] - {'' @ name r @ ''} @ '' @ msg r"

text \<open>
  A reference scenario: a fresh process in a directory that has \<open>logs/\<close>, with the entries
  of the escape-code table that the colour mapping of the source refers to.
\<close>

definition time0 :: "struct_time \<times> nat" where
  "time0 = (\<lparr>tm_year = 2026, tm_mon = 11, tm_mday = 3, tm_hour = 14, tm_min = 27, tm_sec = 5\<rparr>, 7)"

definition codes0 :: "string \<rightharpoonup> string" where
  "codes0 =
     map_of
       [(''reset'', [CHR 0x1B] @ ''[0m''),
        (''cyan'', [CHR 0x1B] @ ''[36m''),
        (''green'', [CHR 0x1B] @ ''[32m''),
        (''yellow'', [CHR 0x1B] @ ''[33m''),
        (''red'', [CHR 0x1B] @ ''[31m''),
        (''bold_red'', [CHR 0x1B] @ ''[1;31m'')]"

definition world0 :: world where
  "world0 =
     \<lparr>dirs = {''logs''}, no_search = {}, no_write = {}, files = Map.empty, offsets = (\<lambda>i. 0),
      stderr = [], stdout = [], loggerDict = Map.empty, next_id = 0, escape_codes = codes0\<rparr>"

text \<open>The same process when an earlier run has left a log file behind.\<close>

definition world_old :: world where
  "world_old = world0\<lparr>files := [''logs/app.log'' \<mapsto> ''previous run'']\<rparr>"







text \<open>The clock stands still in the scenario; \<open>frames0\<close> is the traceback frame of \<open>1/0\<close>.\<close>

definition clock0 :: "nat \<Rightarrow> struct_time \<times> nat" where
  "clock0 i = time0"

definition frames0 :: string where
  "frames0 = ''  File '' @ [CHR 0x22] @ ''logconfig.py'' @ [CHR 0x22] @ '', line 73, in <module>'' @ [CHR 0x0A] @ ''    1/0'' @ [CHR 0x0A]"

definition record0 :: LogRecord where
  "record0 = makeRecord ''test'' WARNING ''low disk'' None time0"


section \<open>Properties\<close>

subsection \<open>Auxiliary facts\<close>

lemma replicate_numeral:
  "replicate (numeral k) x = x # replicate (pred_numeral k) x"
  by (simp add: numeral_eq_Suc)

lemmas time_defs =
  formatTime_def default_time_format_def directive_def zpad_def str_nat.simps digit_char_def
  month_abbr_def replicate_numeral

lemma dirname_log: "dirname ''logs/app.log'' = ''logs''"
  by (simp add: dirname_def)

lemmas level_defs = NOTSET_def DEBUG_def INFO_def WARNING_def ERROR_def CRITICAL_def


lemma open_log_file:
  "builtin_open ''logs/app.log'' ''w'' w =
     (if can_open w
      then Inr (w\<lparr>files := (files w)(''logs/app.log'' \<mapsto> []),
                  no_write := (if files w ''logs/app.log'' = None
                               then no_write w - {''logs/app.log''} else no_write w)\<rparr>)
      else Inl (open_error w))"
  by (auto simp add: builtin_open_def can_open_def open_error_def dirname_log Let_def
      split: option.splits)

lemma getLogger_name: "snd (getLogger n w) = n"
  by (simp add: getLogger_def split: option.splits)

lemma prepare_fields:
  "dirs (setLevel n lvl (fst (getLogger n w))) = dirs w
   \<and> no_search (setLevel n lvl (fst (getLogger n w))) = no_search w
   \<and> no_write (setLevel n lvl (fst (getLogger n w))) = no_write w
   \<and> files (setLevel n lvl (fst (getLogger n w))) = files w
   \<and> offsets (setLevel n lvl (fst (getLogger n w))) = offsets w
   \<and> stderr (setLevel n lvl (fst (getLogger n w))) = stderr w
   \<and> stdout (setLevel n lvl (fst (getLogger n w))) = stdout w
   \<and> next_id (setLevel n lvl (fst (getLogger n w))) = next_id w
   \<and> escape_codes (setLevel n lvl (fst (getLogger n w))) = escape_codes w"
  by (simp add: getLogger_def setLevel_def split: option.splits)

lemma prepare_loggerDict:
  "loggerDict (setLevel n lvl (fst (getLogger n w))) =
     (loggerDict w)(n \<mapsto>
        (case loggerDict w n of
           None \<Rightarrow> (if n = ''root'' then default_root
                     else \<lparr>level = NOTSET, handlers = [], propagate = True\<rparr>)
         | Some l \<Rightarrow> l)\<lparr>level := lvl\<rparr>)"
  by (simp add: getLogger_def setLevel_def split: option.splits)

lemma prepare_handlers_of:
  "handlers_of (setLevel n lvl (fst (getLogger n w))) k = handlers_of w k"
  by (simp add: handlers_of_def prepare_loggerDict default_root_def split: option.splits)

lemma addHandler_fields:
  "dirs (addHandler lg h w) = dirs w \<and> no_search (addHandler lg h w) = no_search w
   \<and> no_write (addHandler lg h w) = no_write w \<and> files (addHandler lg h w) = files w
   \<and> offsets (addHandler lg h w) = offsets w \<and> stderr (addHandler lg h w) = stderr w
   \<and> stdout (addHandler lg h w) = stdout w \<and> next_id (addHandler lg h w) = next_id w
   \<and> escape_codes (addHandler lg h w) = escape_codes w"
  by (simp add: addHandler_def split: option.splits)

lemma addHandler_handlers_of:
  "handlers_of (addHandler lg h w) k =
     (if k = lg \<and> loggerDict w lg \<noteq> None \<and> hid h \<notin> hid ` set (handlers_of w lg)
      then handlers_of w lg @ [h] else handlers_of w k)"
  by (auto simp add: addHandler_def handlers_of_def split: option.splits)

lemma addHandler_registered:
  "(loggerDict (addHandler lg h w) k = None) = (loggerDict w k = None)"
  by (simp add: addHandler_def split: option.splits)

lemma addHandler_loggerDict:
  "loggerDict (addHandler lg h w) k =
     (if k = lg
      then map_option
             (\<lambda>l. if hid h \<in> hid ` set (handlers l) then l
                  else l\<lparr>handlers := handlers l @ [h]\<rparr>)
             (loggerDict w lg)
      else loggerDict w k)"
  by (simp add: addHandler_def split: option.splits)

lemma handlers_of_files_update:
  "handlers_of (w\<lparr>files := a, no_write := b, offsets := c, next_id := d\<rparr>) k = handlers_of w k"
  by (simp add: handlers_of_def)

lemma app_logger_unfold:
  "app_logger self w =
     (if can_open w then
        (Inr (log_name self),
         addHandler (log_name self)
           (StreamHandler (Suc (next_id w)) Stderr DEBUG (Some stream_formatter))
           (addHandler (log_name self)
              (FileHandler (next_id w) ''logs/app.log'' ''w'' ''utf-8'' DEBUG (Some file_formatter))
              ((setLevel (log_name self) DEBUG (fst (getLogger (log_name self) w)))
                 \<lparr>files := (files w)(''logs/app.log'' \<mapsto> []),
                  no_write := (if files w ''logs/app.log'' = None
                               then no_write w - {''logs/app.log''} else no_write w),
                  offsets := (offsets w)(next_id w := 0),
                  next_id := Suc (Suc (next_id w))\<rparr>)))
      else (Inl (open_error w), setLevel (log_name self) DEBUG (fst (getLogger (log_name self) w))))"
proof -
  let ?n = "log_name self"
  let ?w2 = "setLevel ?n DEBUG (fst (getLogger ?n w))"
  have same: "can_open ?w2 = can_open w" "open_error ?w2 = open_error w"
    by (simp_all add: can_open_def open_error_def prepare_fields split: option.splits)
  have o: "builtin_open ''logs/app.log'' ''w'' ?w2 =
     (if can_open w
      then Inr (?w2\<lparr>files := (files w)(''logs/app.log'' \<mapsto> []),
                  no_write := (if files w ''logs/app.log'' = None
                               then no_write w - {''logs/app.log''} else no_write w)\<rparr>)
      else Inl (open_error w))"
    using open_log_file [of ?w2] by (simp only: same prepare_fields)
  show ?thesis
  proof (cases "can_open w")
    case True
    then show ?thesis
      by (simp add: app_logger_def Let_def case_prod_beta getLogger_name new_FileHandler_def o
          new_StreamHandler_def prepare_fields)
  next
    case False
    then show ?thesis
      by (simp add: app_logger_def Let_def case_prod_beta getLogger_name new_FileHandler_def o)
  qed
qed

lemma app_logger_fst:
  "fst (app_logger self w) =
     (if can_open w then Inr (log_name self) else Inl (open_error w))"
  by (simp add: app_logger_unfold)

lemma app_logger_handlers:
  assumes "can_open w" and "ids_below w (log_name self)"
  shows "handlers_of (snd (app_logger self w)) (log_name self) =
           handlers_of w (log_name self) @
             [FileHandler (next_id w) ''logs/app.log'' ''w'' ''utf-8'' DEBUG (Some file_formatter),
              StreamHandler (Suc (next_id w)) Stderr DEBUG (Some stream_formatter)]"
proof -
  have fresh: "next_id w \<notin> hid ` set (handlers_of w (log_name self))"
    "Suc (next_id w) \<notin> hid ` set (handlers_of w (log_name self))"
    using assms(2) by (auto simp add: ids_below_def)
  show ?thesis
    using assms(1) fresh
    by (simp add: app_logger_unfold addHandler_handlers_of addHandler_registered
        handlers_of_files_update prepare_handlers_of prepare_loggerDict)
qed

lemma app_logger_handlers_other:
  assumes "lg \<noteq> log_name self"
  shows "handlers_of (snd (app_logger self w)) lg = handlers_of w lg"
  using assms
  by (simp add: app_logger_unfold addHandler_handlers_of handlers_of_files_update
      prepare_handlers_of)

lemma app_logger_failed_handlers:
  assumes "\<not> can_open w"
  shows "handlers_of (snd (app_logger self w)) lg = handlers_of w lg"
  using assms by (simp add: app_logger_unfold prepare_handlers_of)


lemma app_logger_fresh_logger:
  assumes "can_open w" and "loggerDict w (log_name self) = None"
  shows "loggerDict (snd (app_logger self w)) (log_name self) =
           Some \<lparr>level = DEBUG,
                 handlers =
                   [FileHandler (next_id w) ''logs/app.log'' ''w'' ''utf-8'' DEBUG
                      (Some file_formatter),
                    StreamHandler (Suc (next_id w)) Stderr DEBUG (Some stream_formatter)],
                 propagate = True\<rparr>"
  using assms
  by (simp add: app_logger_unfold addHandler_loggerDict prepare_loggerDict default_root_def)

lemma app_logger_propagate:
  assumes "loggerDict w (log_name self) = Some l"
  shows "map_option propagate (loggerDict (snd (app_logger self w)) (log_name self))
           = Some (propagate l)"
  using assms by (simp add: app_logger_unfold addHandler_loggerDict prepare_loggerDict)

lemma app_logger_streams:
  "stderr (snd (app_logger self w)) = stderr w \<and> stdout (snd (app_logger self w)) = stdout w
   \<and> escape_codes (snd (app_logger self w)) = escape_codes w
   \<and> dirs (snd (app_logger self w)) = dirs w
   \<and> no_search (snd (app_logger self w)) = no_search w"
  by (simp add: app_logger_unfold addHandler_fields prepare_fields)

lemma app_logger_files:
  "files (snd (app_logger self w)) =
     (if can_open w then (files w)(''logs/app.log'' \<mapsto> []) else files w)"
  by (simp add: app_logger_unfold addHandler_fields prepare_fields)

lemma app_logger_next_id:
  "next_id (snd (app_logger self w)) = (if can_open w then next_id w + 2 else next_id w)"
  by (simp add: app_logger_unfold addHandler_fields prepare_fields)

lemma app_logger_offsets:
  "offsets (snd (app_logger self w)) =
     (if can_open w then (offsets w)(next_id w := 0) else offsets w)"
  by (simp add: app_logger_unfold addHandler_fields prepare_fields)



lemma app_logger_ids_below:
  assumes "\<forall>lg. ids_below w lg"
  shows "ids_below (snd (app_logger self w)) lg"
proof -
  have below: "hid h < next_id w" if "h \<in> set (handlers_of w k)" for h k
    using assms that by (simp add: ids_below_def)
  show ?thesis
  proof (cases "can_open w")
    case False
    then show ?thesis
      using below by (simp add: ids_below_def app_logger_failed_handlers app_logger_next_id)
  next
    case True
    have ok: "ids_below w (log_name self)"
      using assms by simp
    show ?thesis
    proof (cases "lg = log_name self")
      case True
      then show ?thesis
        using below [of _ "log_name self"] \<open>can_open w\<close>
        by (auto simp add: ids_below_def app_logger_handlers [OF \<open>can_open w\<close> ok]
            app_logger_next_id less_Suc_eq)
    next
      case False
      then show ?thesis
        using below [of _ lg] \<open>can_open w\<close>
        by (auto simp add: ids_below_def app_logger_handlers_other app_logger_next_id less_Suc_eq)
    qed
  qed
qed

lemma fresh_ids_below: "handlers_of w lg = [] \<Longrightarrow> ids_below w lg"
  by (simp add: ids_below_def)

lemma world0_ids_below: "ids_below world0 lg"
  by (simp add: fresh_ids_below handlers_of_def world0_def)

lemma percent_file_template:
  "percent_format ''%(levelname)s:    %(asctime)s - %(name)s - %(message)s'' (record_dict r a)
     = Some (levelname r @ '':    '' @ a @ '' - '' @ name r @ '' - '' @ msg r)"
  by (simp add: percent_format_def record_dict_def is_flag_def convert_def)

lemma file_formatMessage:
  "formatMessage codes file_formatter r =
     Some (levelname r @ '':    '' @ formatTime file_formatter r @ '' - '' @ name r @ '' - '' @ msg r)"
  by (simp add: formatMessage_def file_formatter_def percent_file_template)

lemma emit_stdout:
  "\<not> to_stdout h \<Longrightarrow> stdout (emit h r w) = stdout w"
  by (cases h) (auto simp add: emit_def handleError_def stream_write_def Let_def
      split: option.splits std_stream.splits)

lemma callHandlers_stdout:
  "\<forall>h \<in> set hs. \<not> to_stdout h \<Longrightarrow> stdout (callHandlers hs r w) = stdout w"
  by (induction hs arbitrary: w) (simp_all add: emit_stdout)

lemma callHandlers_append:
  "callHandlers (hs @ hs') r w = callHandlers hs' r (callHandlers hs r w)"
  by (induction hs arbitrary: w) simp_all

lemma dotted_prefixes_plain: "CHR ''.'' \<notin> set r \<Longrightarrow> dotted_prefixes r = []"
  by (induction r rule: dotted_prefixes.induct) auto

lemma parent_name_plain: "CHR ''.'' \<notin> set k \<Longrightarrow> parent_name d k = ''root''"
  by (simp add: parent_name_def dotted_prefixes_plain)

lemma ancestry_root: "ancestry d ''root'' = [root_logger d]"
  by (simp add: ancestry.simps)

lemma ancestry_registered:
  assumes "d k = Some l"
  shows "ancestry d k = l # (if k = ''root'' then [] else ancestry d (parent_name d k))"
  using assms by (auto simp add: ancestry.simps [of d k] root_logger_def)

lemma root_handlers: "handlers (root_logger (loggerDict w)) = handlers_of w ''root''"
  by (simp add: root_logger_def handlers_of_def default_root_def split: option.splits)

lemma chain_registered:
  assumes "loggerDict w lg = Some l"
  shows "ancestry (loggerDict w) lg \<noteq> []
       \<and> chain_handlers (ancestry (loggerDict w) lg) = handlers l @ inherited_handlers w lg
       \<and> (level l \<noteq> NOTSET \<longrightarrow> getEffectiveLevel (ancestry (loggerDict w) lg) = level l)"
  using ancestry_registered [of "loggerDict w" lg l] assms
  by (simp add: inherited_handlers_def)

lemma logger_log_registered:
  assumes "loggerDict w lg = Some l" and "level l \<noteq> NOTSET" and "level l \<le> lvl"
    and "handlers l \<noteq> []"
  shows "logger_log lg lvl m ei now w =
           callHandlers (inherited_handlers w lg) (makeRecord lg lvl m ei now)
             (callHandlers (handlers l) (makeRecord lg lvl m ei now) w)"
  using chain_registered [OF assms(1)] assms(2,3,4)
  by (simp add: logger_log_def callHandlers_append Let_def)

lemma inherited_plain:
  assumes "loggerDict w k = Some l" and "CHR ''.'' \<notin> set k" and "k \<noteq> ''root''"
  shows "inherited_handlers w k = (if propagate l then handlers_of w ''root'' else [])"
  using ancestry_registered [of "loggerDict w" k l] assms
  by (simp add: inherited_handlers_def parent_name_plain ancestry_root root_handlers)

lemma ancestry_handlers:
  "l \<in> set (ancestry (loggerDict w) k) \<Longrightarrow> \<exists>k'. handlers l = handlers_of w k'"
proof (induction "loggerDict w" k rule: ancestry.induct)
  case (1 k)
  show ?case
  proof (cases "k = ''root''")
    case True
    with "1.prems" show ?thesis
      using root_handlers [of w] by (auto simp add: ancestry_root)
  next
    case False
    show ?thesis
    proof (cases "loggerDict w k")
      case None
      with False "1.prems" show ?thesis
        by (simp add: ancestry.simps [of _ k])
    next
      case (Some l')
      with False "1.prems" have "l = l' \<or> l \<in> set (ancestry (loggerDict w) (parent_name (loggerDict w) k))"
        by (simp add: ancestry.simps [of _ k])
      then show ?thesis
      proof
        assume "l = l'"
        with Some have "handlers l = handlers_of w k"
          by (simp add: handlers_of_def)
        then show ?thesis ..
      next
        assume "l \<in> set (ancestry (loggerDict w) (parent_name (loggerDict w) k))"
        with "1.hyps" [OF False Some] show ?thesis .
      qed
    qed
  qed
qed

lemma chain_handlers_members:
  "h \<in> set (chain_handlers ls) \<Longrightarrow> \<exists>l \<in> set ls. h \<in> set (handlers l)"
  by (induction ls) (auto split: if_splits)

lemma no_stdout_chain:
  assumes "no_stdout_handler w" and "h \<in> set (chain_handlers (ancestry (loggerDict w) k))"
  shows "\<not> to_stdout h"
proof -
  obtain l where l: "l \<in> set (ancestry (loggerDict w) k)" and h: "h \<in> set (handlers l)"
    using chain_handlers_members [OF assms(2)] by blast
  obtain k' where "handlers l = handlers_of w k'"
    using ancestry_handlers [OF l] by blast
  with h assms(1) show ?thesis
    by (simp add: no_stdout_handler_def)
qed

lemma logger_log_stdout:
  assumes "no_stdout_handler w"
  shows "stdout (logger_log lg lvl m ei now w) = stdout w"
  using no_stdout_chain [OF assms]
  by (simp add: logger_log_def Let_def callHandlers_stdout emit_stdout lastResort_def)

lemma app_logger_no_stdout:
  assumes "can_open w" and "ids_below w (log_name self)" and "no_stdout_handler w"
  shows "no_stdout_handler (snd (app_logger self w))"
  unfolding no_stdout_handler_def
proof (intro allI ballI)
  fix k h
  assume h: "h \<in> set (handlers_of (snd (app_logger self w)) k)"
  show "\<not> to_stdout h"
  proof (cases "k = log_name self")
    case True
    with h assms(3) show ?thesis
      by (auto simp add: app_logger_handlers [OF assms(1,2)] no_stdout_handler_def)
  next
    case False
    with h assms(3) show ?thesis
      by (simp add: app_logger_handlers_other no_stdout_handler_def)
  qed
qed

lemmas percent_defs = percent_format_def record_dict_def is_flag_def convert_def

lemma record0_fields:
  "name record0 = ''test'' \<and> levelno record0 = 30 \<and> levelname record0 = ''WARNING''
   \<and> msg record0 = ''low disk'' \<and> msecs record0 = 7 \<and> exc_info record0 = None
   \<and> created record0 = fst time0"
  by (simp add: record0_def makeRecord_def getLevelName_def level_defs time0_def)

lemma makeRecord_fields:
  "name (makeRecord n lvl m ei now) = n"
  "levelno (makeRecord n lvl m ei now) = lvl"
  "levelname (makeRecord n lvl m ei now) = getLevelName lvl"
  "msg (makeRecord n lvl m ei now) = m"
  "created (makeRecord n lvl m ei now) = fst now"
  "msecs (makeRecord n lvl m ei now) = snd now"
  "exc_info (makeRecord n lvl m ei now) = ei"
  by (simp_all add: makeRecord_def)

lemma file_time0: "formatTime file_formatter record0 = ''2026-11-03 14:27:05,007''"
  by (simp add: time_defs file_formatter_def record0_fields time0_def)

lemma stream_time0: "formatTime stream_formatter record0 = ''2026/Nov/03 14:27:05''"
  by (simp add: time_defs stream_formatter_def record0_fields time0_def)

lemma stream_formatTime:
  "formatTime stream_formatter r = strftime ''%Y/%b/%d %H:%M:%S'' (created r)"
  by (simp add: formatTime_def stream_formatter_def)

lemma file_formatTime:
  "formatTime file_formatter r =
     strftime ''%Y-%m-%d %H:%M:%S'' (created r) @ '','' @ zpad 3 (msecs r)"
  by (simp add: formatTime_def file_formatter_def default_time_format_def)

lemma percent_stream_template:
  assumes "d ''log_color'' = Some (PStr lc)" and "d ''reset'' = Some (PStr rs)"
    and "d ''levelname'' = Some (PStr l)" and "d ''asctime'' = Some (PStr a)"
    and "d ''msecs'' = Some (PNum ms)" and "d ''name'' = Some (PStr n)"
    and "d ''message'' = Some (PStr m)"
  shows "percent_format stream_template d =
           Some (lc @ l @ rs @ '':    ['' @ a @ '','' @ [ESC] @ ''[1;90m'' @ zpad 3 ms @ [ESC]
                 @ ''[0m] - {{'' @ [ESC] @ ''[38;2;235;9;220m'' @ n @ [ESC] @ ''[0m}} @'' @ lc @ m)"
  using assms
  by (simp add: percent_format_def stream_template_def is_flag_def convert_def ESC_def)

lemma stream_formatMessage:
  assumes "codes ''reset'' = Some rs"
    and "get_escape_code codes (log_colors stream_formatter) (levelname r) = Some lc"
    and "no_clash codes"
  shows "formatMessage codes stream_formatter r =
           Some (append_reset
                   (lc @ levelname r @ rs @ '':    ['' @ formatTime stream_formatter r @ '',''
                    @ [ESC] @ ''[1;90m'' @ zpad 3 (msecs r) @ [ESC] @ ''[0m] - {{'' @ [ESC]
                    @ ''[38;2;235;9;220m'' @ name r @ [ESC] @ ''[0m}} @'' @ lc @ msg r) rs)"
proof -
  let ?colors = "log_colors stream_formatter"
  let ?esc = "codes(''log_color'' \<mapsto> lc)"
  let ?d = "record_dict r (formatTime stream_formatter r) ++ (map_option PStr \<circ> ?esc)"
  have none: "codes ''levelname'' = None" "codes ''asctime'' = None" "codes ''msecs'' = None"
    "codes ''name'' = None" "codes ''message'' = None" "codes ''log_color'' = None"
    using assms(3) by (simp_all add: no_clash_def)
  have m: "escape_code_map codes ?colors (levelname r) = Some ?esc"
    using assms(2) none(6) by (simp add: escape_code_map_def)
  have d: "?d ''log_color'' = Some (PStr lc)" "?d ''reset'' = Some (PStr rs)"
    "?d ''levelname'' = Some (PStr (levelname r))"
    "?d ''asctime'' = Some (PStr (formatTime stream_formatter r))"
    "?d ''msecs'' = Some (PNum (msecs r))" "?d ''name'' = Some (PStr (name r))"
    "?d ''message'' = Some (PStr (msg r))"
    using assms(1) none by (simp_all add: map_add_def record_dict_def)
  have f: "stream_formatter = ColoredFormatter stream_template (Some ''%Y/%b/%d %H:%M:%S'') ?colors"
    by (simp add: stream_formatter_def)
  have reset: "?esc ''reset'' = Some rs"
    using assms(1) by simp
  have "formatMessage codes (ColoredFormatter stream_template (Some ''%Y/%b/%d %H:%M:%S'') ?colors) r
          = (case percent_format stream_template
                    (record_dict r (formatTime
                       (ColoredFormatter stream_template (Some ''%Y/%b/%d %H:%M:%S'') ?colors) r)
                     ++ (map_option PStr \<circ> ?esc)) of
               None \<Rightarrow> None
             | Some message \<Rightarrow>
                 (case ?esc ''reset'' of
                    None \<Rightarrow> None
                  | Some reset_code \<Rightarrow> Some (append_reset message reset_code)))"
    by (simp only: formatMessage_def formatter.case m option.case)
  then show ?thesis
    by (simp only: f [symmetric] percent_stream_template [of ?d, OF d] reset option.case)
qed

lemma get_escape_code_stream:
  "get_escape_code codes (log_colors stream_formatter) ''DEBUG'' = codes ''cyan''"
  "get_escape_code codes (log_colors stream_formatter) ''INFO'' = codes ''green''"
  "get_escape_code codes (log_colors stream_formatter) ''WARNING'' = codes ''yellow''"
  "get_escape_code codes (log_colors stream_formatter) ''ERROR'' = codes ''red''"
  "get_escape_code codes (log_colors stream_formatter) ''CRITICAL'' = codes ''bold_red''"
  by (simp_all add: get_escape_code_def stream_formatter_def parse_colors_def
      split: option.splits)

lemma codes0_ok:
  "codes0 ''reset'' = Some ([CHR 0x1B] @ ''[0m'') \<and> no_clash codes0
   \<and> codes0 ''cyan'' = Some ([CHR 0x1B] @ ''[36m'')
   \<and> codes0 ''green'' = Some ([CHR 0x1B] @ ''[32m'')
   \<and> codes0 ''yellow'' = Some ([CHR 0x1B] @ ''[33m'')
   \<and> codes0 ''red'' = Some ([CHR 0x1B] @ ''[31m'')
   \<and> codes0 ''bold_red'' = Some ([CHR 0x1B] @ ''[1;31m'')"
  by (simp add: codes0_def no_clash_def)

lemma console_line0:
  "formatMessage codes0 stream_formatter record0 =
     Some ([CHR 0x1B] @ ''[33mWARNING'' @ [CHR 0x1B] @ ''[0m:    [2026/Nov/03 14:27:05,''
           @ [CHR 0x1B] @ ''[1;90m007'' @ [CHR 0x1B] @ ''[0m] - {{'' @ [CHR 0x1B]
           @ ''[38;2;235;9;220mtest'' @ [CHR 0x1B] @ ''[0m}} @'' @ [CHR 0x1B]
           @ ''[33mlow disk'' @ [CHR 0x1B] @ ''[0m'')"
proof -
  have h1: "codes0 ''reset'' = Some ([CHR 0x1B] @ ''[0m'')"
    by (simp add: codes0_ok)
  have h2: "get_escape_code codes0 (log_colors stream_formatter) (levelname record0)
              = Some ([CHR 0x1B] @ ''[33m'')"
    by (simp add: record0_fields get_escape_code_stream codes0_ok)
  have h3: "no_clash codes0"
    by (simp add: codes0_ok)
  show ?thesis
    using stream_formatMessage [OF h1 h2 h3]
    by (simp add: record0_fields stream_time0 append_reset_def ESC_def zpad_def str_nat.simps
        digit_char_def replicate_numeral suffix_to_prefix)
qed

lemma console_record0:
  "format_record codes0 stream_formatter record0 =
     Some ([CHR 0x1B] @ ''[33mWARNING'' @ [CHR 0x1B] @ ''[0m:    [2026/Nov/03 14:27:05,'' @ [CHR 0x1B] @ ''[1;90m007'' @ [CHR 0x1B] @ ''[0m] - {{'' @ [CHR 0x1B] @ ''[38;2;235;9;220mtest'' @ [CHR 0x1B] @ ''[0m}} @'' @ [CHR 0x1B] @ ''[33mlow disk'' @ [CHR 0x1B] @ ''[0m'')"
  by (simp add: format_record_def console_line0 record0_fields)



lemma emit_loggerDict: "loggerDict (emit h r w) = loggerDict w"
  by (cases h) (auto simp add: emit_def handleError_def stream_write_def Let_def
      split: option.splits std_stream.splits)







lemma callHandlers_loggerDict: "loggerDict (callHandlers hs r w) = loggerDict w"
  by (induction hs arbitrary: w) (simp_all add: emit_loggerDict)

lemma emit_stream_files:
  "files (emit (StreamHandler j st l g) r w) = files w
   \<and> offsets (emit (StreamHandler j st l g) r w) = offsets w"
  by (simp add: emit_def handleError_def stream_write_def
      split: option.splits std_stream.splits)

lemma format_record_file:
  "format_record c file_formatter r = Some (file_line r)"
  by (simp add: format_record_def file_formatMessage file_line_def split: option.splits)

lemma emit_file_in_sync:
  assumes "files w fn = Some c" and "offsets w i = length c"
  shows "files (emit (FileHandler i fn ''w'' enc l (Some file_formatter)) r w) fn
           = Some (c @ file_line r @ [NL])
       \<and> offsets (emit (FileHandler i fn ''w'' enc l (Some file_formatter)) r w) i
           = length (c @ file_line r @ [NL])"
  using assms
  by (simp add: emit_def handler_format_def format_record_file stream_write_def write_at_def
      Let_def)

lemma foldl_emit_files:
  assumes "files v fn = Some c" and "offsets v i = length c"
  shows "files (foldl (\<lambda>v r. emit (StreamHandler j st l' g) r
                           (emit (FileHandler i fn ''w'' enc l (Some file_formatter)) r v)) v rs) fn
           = Some (c @ concat (map (\<lambda>r. file_line r @ [NL]) rs))"
  using assms
proof (induction rs arbitrary: v c)
  case Nil
  then show ?case by simp
next
  case (Cons r rs)
  let ?v = "emit (StreamHandler j st l' g) r
              (emit (FileHandler i fn ''w'' enc l (Some file_formatter)) r v)"
  have f: "files ?v fn = Some (c @ file_line r @ [NL])"
    and o: "offsets ?v i = length (c @ file_line r @ [NL])"
    using emit_file_in_sync [OF Cons.prems, of enc l r]
    by (simp_all add: emit_stream_files)
  show ?case
    using Cons.IH [OF f o] by simp
qed

subsection \<open>Repeated configuration (C1)\<close>




subsection \<open>Timestamps of the two sinks (C2)\<close>

text \<open>
  Claim C2 fails on the code. Only the console formatter is built with the date format
  \<open>%Y/%b/%d %H:%M:%S\<close>; the file formatter is built without one and falls back to the default
  of \<open>logging\<close>, \<open>YYYY-MM-DD HH:MM:SS,mmm\<close>. For the record of the reference scenario the two
  sinks therefore render different timestamps.
\<close>

theorem timestamp_formats_differ:
  "formatTime file_formatter record0 = ''2026-11-03 14:27:05,007''
   \<and> formatTime stream_formatter record0 = ''2026/Nov/03 14:27:05''
   \<and> formatTime file_formatter record0 \<noteq> formatTime stream_formatter record0"
  by (simp add: file_time0 stream_time0)

subsection \<open>The file sink (C3)\<close>

text \<open>
  Claim C3. When the log file can be opened, \<open>app_logger\<close> succeeds and attaches a file handler
  for the relative path \<open>logs/app.log\<close>, opened with mode \<open>'w'\<close> (the file is empty
  afterwards, whatever it held), encoding \<open>utf-8\<close> and level \<open>DEBUG\<close>. Its formatter renders
  every record as \<open>LEVEL:    TIMESTAMP - LOGGER_NAME - MESSAGE\<close>, and a record without
  exception information emitted through the new handler puts exactly that line into the file.
\<close>

theorem file_sink_configuration:
  assumes "can_open w" and "ids_below w (log_name self)"
  shows "fst (app_logger self w) = Inr (log_name self)
       \<and> FileHandler (next_id w) ''logs/app.log'' ''w'' ''utf-8'' DEBUG (Some file_formatter)
           \<in> set (handlers_of (snd (app_logger self w)) (log_name self))
       \<and> files (snd (app_logger self w)) ''logs/app.log'' = Some []
       \<and> formatMessage codes file_formatter r =
           Some (levelname r @ '':    '' @ formatTime file_formatter r @ '' - '' @ name r
                 @ '' - '' @ msg r)
       \<and> (exc_info r = None \<longrightarrow>
            files (emit (FileHandler (next_id w) ''logs/app.log'' ''w'' ''utf-8'' DEBUG
                          (Some file_formatter)) r (snd (app_logger self w))) ''logs/app.log''
              = Some (levelname r @ '':    '' @ formatTime file_formatter r @ '' - '' @ name r
                      @ '' - '' @ msg r @ [NL]))"
proof -
  have a: "fst (app_logger self w) = Inr (log_name self)"
    using assms(1) by (simp add: app_logger_fst)
  have b: "FileHandler (next_id w) ''logs/app.log'' ''w'' ''utf-8'' DEBUG (Some file_formatter)
           \<in> set (handlers_of (snd (app_logger self w)) (log_name self))"
    by (simp add: app_logger_handlers [OF assms])
  have c: "files (snd (app_logger self w)) ''logs/app.log'' = Some []"
    using assms(1) by (simp add: app_logger_files)
  have d: "offsets (snd (app_logger self w)) (next_id w) = 0"
    using assms(1) by (simp add: app_logger_offsets)
  have e: "exc_info r = None \<longrightarrow>
            files (emit (FileHandler (next_id w) ''logs/app.log'' ''w'' ''utf-8'' DEBUG
                          (Some file_formatter)) r (snd (app_logger self w))) ''logs/app.log''
              = Some (levelname r @ '':    '' @ formatTime file_formatter r @ '' - '' @ name r
                      @ '' - '' @ msg r @ [NL])"
    by (simp add: emit_def handler_format_def format_record_def file_formatMessage
        stream_write_def c d write_at_def)
  from a b c e show ?thesis
    by (simp add: file_formatMessage)
qed

theorem file_sink_configuration_witness:
  "files world_old ''logs/app.log'' = Some ''previous run''
   \<and> fst (app_logger \<lparr>log_name = ''test''\<rparr> world_old) = Inr ''test''
   \<and> files (snd (app_logger \<lparr>log_name = ''test''\<rparr> world_old)) ''logs/app.log'' = Some []
   \<and> files (emit (FileHandler 0 ''logs/app.log'' ''w'' ''utf-8'' DEBUG (Some file_formatter)) record0
        (snd (app_logger \<lparr>log_name = ''test''\<rparr> world_old))) ''logs/app.log''
       = Some (''WARNING:    2026-11-03 14:27:05,007 - test - low disk'' @ [NL])"
proof -
  have h1: "can_open world_old"
    by (simp add: can_open_def world_old_def world0_def)
  have h2: "ids_below world_old (log_name \<lparr>log_name = ''test''\<rparr>)"
    by (simp add: ids_below_def handlers_of_def world_old_def world0_def)
  have n: "next_id world_old = 0 \<and> files world_old ''logs/app.log'' = Some ''previous run''"
    by (simp add: world_old_def world0_def)
  show ?thesis
    using file_sink_configuration [OF h1 h2, of codes0 record0] n
    by (simp add: record0_fields file_time0)
qed

subsection \<open>The console layout (C4)\<close>

text \<open>
  Claim C4, as the code has it. For a record whose level has a colour code \<open>lc\<close>, with reset
  code \<open>rs\<close>, the console formatter renders
  \<open>LEVEL:    [TIMESTAMP,MSEC] - {{LOGGER_NAME}} @MESSAGE\<close>: the braces are doubled and
  nothing separates \<open>@\<close> from the message. \<open>lc\<close> precedes the level name and the message,
  \<open>rs\<close> follows the level name and ends the line, the milliseconds (three digits) stand
  between \<open>ESC[1;90m\<close> and \<open>ESC[0m\<close>, the logger name between \<open>ESC[38;2;235;9;220m\<close> and
  \<open>ESC[0m\<close>, and the timestamp has the format \<open>%Y/%b/%d %H:%M:%S\<close>.
\<close>

theorem console_template_layout:
  assumes "codes ''reset'' = Some rs"
    and "get_escape_code codes (log_colors stream_formatter) (levelname r) = Some lc"
    and "no_clash codes"
  shows "formatMessage codes stream_formatter r =
           Some (append_reset
                   (lc @ levelname r @ rs @ '':    ['' @ formatTime stream_formatter r @ '',''
                    @ [ESC] @ ''[1;90m'' @ zpad 3 (msecs r) @ [ESC] @ ''[0m] - {{'' @ [ESC]
                    @ ''[38;2;235;9;220m'' @ name r @ [ESC] @ ''[0m}} @'' @ lc @ msg r) rs)
       \<and> formatTime stream_formatter r = strftime ''%Y/%b/%d %H:%M:%S'' (created r)"
  using stream_formatMessage [OF assms] stream_formatTime by simp

theorem console_template_layout_witness:
  "formatMessage codes0 stream_formatter record0 =
     Some ([CHR 0x1B] @ ''[33mWARNING'' @ [CHR 0x1B] @ ''[0m:    [2026/Nov/03 14:27:05,''
           @ [CHR 0x1B] @ ''[1;90m007'' @ [CHR 0x1B] @ ''[0m] - {{'' @ [CHR 0x1B]
           @ ''[38;2;235;9;220mtest'' @ [CHR 0x1B] @ ''[0m}} @'' @ [CHR 0x1B]
           @ ''[33mlow disk'' @ [CHR 0x1B] @ ''[0m'')"
proof -
  have h1: "codes0 ''reset'' = Some ([CHR 0x1B] @ ''[0m'')"
    by (simp add: codes0_ok)
  have h2: "get_escape_code codes0 (log_colors stream_formatter) (levelname record0)
              = Some ([CHR 0x1B] @ ''[33m'')"
    by (simp add: record0_fields get_escape_code_stream codes0_ok)
  have h3: "no_clash codes0"
    by (simp add: codes0_ok)
  show ?thesis
    using console_template_layout [OF h1 h2 h3]
    by (simp add: record0_fields stream_time0 append_reset_def ESC_def zpad_def str_nat.simps
        digit_char_def replicate_numeral suffix_to_prefix)
qed

text \<open>
  The layout of the specification for C4 is not what the terminal shows: with the colour
  sequences removed, the line of the reference record has doubled braces and no space after
  \<open>@\<close>.
\<close>

theorem console_layout_counterexample:
  "map_option (visible False) (formatMessage codes0 stream_formatter record0)
     = Some ''WARNING:    [2026/Nov/03 14:27:05,007] - {{test}} @low disk''
   \<and> spec_console_layout record0 (formatTime stream_formatter record0)
     = ''WARNING:    [2026/Nov/03 14:27:05,007] - {test} @ low disk''
   \<and> map_option (visible False) (formatMessage codes0 stream_formatter record0)
     \<noteq> Some (spec_console_layout record0 (formatTime stream_formatter record0))"
  by (simp add: console_line0 spec_console_layout_def record0_fields stream_time0 zpad_def
      str_nat.simps digit_char_def replicate_numeral)

subsection \<open>The default logger name (C5)\<close>

text \<open>
  Claim C5, as the code has it. Without an argument the constructor takes as \<open>log_name\<close> the
  \<open>__name__\<close> of the module that defines \<open>Log\<close>, whichever module calls it; with an argument
  it takes the argument.
\<close>

theorem default_log_name_is_defining_module:
  "log_name (Log_init module_name caller None) = module_name
   \<and> log_name (Log_init module_name caller (Some n)) = n"
  by (simp add: Log_init_def)

text \<open>
  The default is not the caller's module: a constructor call without argument from
  \<open>project.app\<close> yields the name of the defining module.
\<close>

theorem default_log_name_counterexample:
  "log_name (Log_init ''core.logconfig'' ''project.app'' None) = ''core.logconfig''
   \<and> log_name (Log_init ''core.logconfig'' ''project.app'' None) \<noteq> ''project.app''"
  by (simp add: Log_init_def)

subsection \<open>The colour mapping (C6)\<close>

text \<open>
  Claim C6. The colour mapping of the console formatter has exactly the five level names as
  keys and maps \<open>DEBUG\<close> to \<open>cyan\<close>, \<open>INFO\<close> to \<open>green\<close>, \<open>WARNING\<close> to \<open>yellow\<close>, \<open>ERROR\<close> to
  \<open>red\<close> and \<open>CRITICAL\<close> to \<open>bold_red\<close>; the escape code applied to a level is the entry of
  the escape-code table for that colour.
\<close>

theorem log_color_mapping:
  "map_of (log_colors stream_formatter) (getLevelName DEBUG) = Some ''cyan''
   \<and> map_of (log_colors stream_formatter) (getLevelName INFO) = Some ''green''
   \<and> map_of (log_colors stream_formatter) (getLevelName WARNING) = Some ''yellow''
   \<and> map_of (log_colors stream_formatter) (getLevelName ERROR) = Some ''red''
   \<and> map_of (log_colors stream_formatter) (getLevelName CRITICAL) = Some ''bold_red''
   \<and> dom (map_of (log_colors stream_formatter))
       = {''DEBUG'', ''INFO'', ''WARNING'', ''ERROR'', ''CRITICAL''}
   \<and> get_escape_code codes (log_colors stream_formatter) (getLevelName DEBUG) = codes ''cyan''
   \<and> get_escape_code codes (log_colors stream_formatter) (getLevelName INFO) = codes ''green''
   \<and> get_escape_code codes (log_colors stream_formatter) (getLevelName WARNING) = codes ''yellow''
   \<and> get_escape_code codes (log_colors stream_formatter) (getLevelName ERROR) = codes ''red''
   \<and> get_escape_code codes (log_colors stream_formatter) (getLevelName CRITICAL)
       = codes ''bold_red''"
proof -
  have names: "getLevelName DEBUG = ''DEBUG''" "getLevelName INFO = ''INFO''"
    "getLevelName WARNING = ''WARNING''" "getLevelName ERROR = ''ERROR''"
    "getLevelName CRITICAL = ''CRITICAL''"
    by (simp_all add: getLevelName_def level_defs)
  have d: "dom (map_of (log_colors stream_formatter))
             = {''DEBUG'', ''INFO'', ''WARNING'', ''ERROR'', ''CRITICAL''}"
    by (auto simp add: stream_formatter_def dom_map_of_conv_image_fst)
  have m: "map_of (log_colors stream_formatter) ''DEBUG'' = Some ''cyan''"
    "map_of (log_colors stream_formatter) ''INFO'' = Some ''green''"
    "map_of (log_colors stream_formatter) ''WARNING'' = Some ''yellow''"
    "map_of (log_colors stream_formatter) ''ERROR'' = Some ''red''"
    "map_of (log_colors stream_formatter) ''CRITICAL'' = Some ''bold_red''"
    by (simp_all add: stream_formatter_def)
  show ?thesis
    unfolding names using d m by (simp add: get_escape_code_stream)
qed

subsection \<open>The script (C7)\<close>

text \<open>
  Claim C7. Run as a script in a fresh process where the log file can be opened,
  \<open>logconfig.py\<close> configures the logger \<open>__main__\<close> and ends normally after passing six
  records, each once and in this order, to the file handler and to the console handler:
  \<open>debug message\<close> at \<open>DEBUG\<close>, \<open>info message\<close> at \<open>INFO\<close>, \<open>warning message\<close> at \<open>WARNING\<close>,
  \<open>error message\<close> at \<open>ERROR\<close>, \<open>critical message\<close> at \<open>CRITICAL\<close>, and \<open>unknown error\<close>,
  which \<open>Logger.exception\<close> logs at \<open>ERROR\<close> with the \<open>ZeroDivisionError\<close> of \<open>1/0\<close> and its
  traceback attached. After the two handlers each record goes on to the handlers of the
  root logger, the only ancestor of \<open>__main__\<close>; a directly run process has none. The run
  reads no flag or argument. Imported under any other name, the module leaves the state as
  it is.
\<close>

theorem main_emits_samples_then_exception:
  assumes "can_open w" and "loggerDict w ''__main__'' = None"
  shows "logconfig_module ''__main__'' clock frames w =
           (Inr (),
            foldl (\<lambda>v r.
                callHandlers (handlers_of w ''root'') r
                 (emit (StreamHandler (Suc (next_id w)) Stderr DEBUG (Some stream_formatter)) r
                   (emit (FileHandler (next_id w) ''logs/app.log'' ''w'' ''utf-8'' DEBUG
                           (Some file_formatter)) r v)))
              (snd (app_logger \<lparr>log_name = ''__main__''\<rparr> w))
              [makeRecord ''__main__'' DEBUG ''debug message'' None (clock 0),
               makeRecord ''__main__'' INFO ''info message'' None (clock 1),
               makeRecord ''__main__'' WARNING ''warning message'' None (clock 2),
               makeRecord ''__main__'' ERROR ''error message'' None (clock 3),
               makeRecord ''__main__'' CRITICAL ''critical message'' None (clock 4),
               makeRecord ''__main__'' ERROR ''unknown error''
                 (Some (ZeroDivisionError ''division by zero'', frames)) (clock 5)])
       \<and> (n \<noteq> ''__main__'' \<longrightarrow> logconfig_module n clock frames w = (Inr (), w))"
proof -
  let ?self = "\<lparr>log_name = ''__main__''\<rparr>"
  let ?w0 = "snd (app_logger ?self w)"
  let ?fh = "FileHandler (next_id w) ''logs/app.log'' ''w'' ''utf-8'' DEBUG (Some file_formatter)"
  let ?sh = "StreamHandler (Suc (next_id w)) Stderr DEBUG (Some stream_formatter)"
  let ?l = "\<lparr>level = DEBUG, handlers = [?fh, ?sh], propagate = True\<rparr>"
  have ok: "fst (app_logger ?self w) = Inr ''__main__''"
    using assms(1) by (simp add: app_logger_fst)
  have l: "loggerDict ?w0 ''__main__'' = Some ?l"
    using app_logger_fresh_logger [of w ?self] assms by simp
  have root: "handlers_of ?w0 ''root'' = handlers_of w ''root''"
    by (simp add: app_logger_handlers_other)
  have plain: "CHR ''.'' \<notin> set ''__main__''" "''__main__'' \<noteq> ''root''"
    by simp_all
  have step: "logger_log ''__main__'' lvl m ei now v =
                callHandlers (handlers_of w ''root'') (makeRecord ''__main__'' lvl m ei now)
                  (emit ?sh (makeRecord ''__main__'' lvl m ei now)
                    (emit ?fh (makeRecord ''__main__'' lvl m ei now) v))"
    if same: "loggerDict v = loggerDict ?w0" and lvl: "DEBUG \<le> lvl" for lvl m ei now v
  proof -
    have lv: "loggerDict v ''__main__'' = Some ?l"
      using l same by simp
    have inh: "inherited_handlers v ''__main__'' = handlers_of w ''root''"
      using inherited_plain [OF lv plain] root same by (simp add: handlers_of_def)
    have set: "level ?l \<noteq> NOTSET" and le: "level ?l \<le> lvl" and some: "handlers ?l \<noteq> []"
      using lvl by (simp_all add: level_defs)
    show ?thesis
      using lvl by (simp add: logger_log_registered [OF lv set le some] inh makeRecord_fields)
  qed
  have lvls: "DEBUG \<le> DEBUG" "DEBUG \<le> INFO" "DEBUG \<le> WARNING" "DEBUG \<le> ERROR"
    "DEBUG \<le> CRITICAL"
    by (simp_all add: level_defs)
  have app: "app_logger (Log_init ''__main__'' ''__main__'' (Some ''__main__'')) w
               = (Inr ''__main__'', ?w0)"
    using ok by (simp add: Log_init_def prod_eq_iff)
  have main: "main_block ''__main__'' clock frames w =
           (Inr (),
            foldl (\<lambda>v r. callHandlers (handlers_of w ''root'') r (emit ?sh r (emit ?fh r v))) ?w0
              [makeRecord ''__main__'' DEBUG ''debug message'' None (clock 0),
               makeRecord ''__main__'' INFO ''info message'' None (clock 1),
               makeRecord ''__main__'' WARNING ''warning message'' None (clock 2),
               makeRecord ''__main__'' ERROR ''error message'' None (clock 3),
               makeRecord ''__main__'' CRITICAL ''critical message'' None (clock 4),
               makeRecord ''__main__'' ERROR ''unknown error''
                 (Some (ZeroDivisionError ''division by zero'', frames)) (clock 5)])"
    by (simp add: main_block_def app truediv_def is_Exception_def debug_def info_def
        warning_def error_def critical_def exception_def step lvls emit_loggerDict
        callHandlers_loggerDict Let_def)
  show ?thesis
    using main by (simp add: logconfig_module_def)
qed

theorem main_emits_samples_then_exception_witness:
  "fst (logconfig_module ''__main__'' clock0 frames0 world0) = Inr ()
   \<and> logconfig_module ''core.logconfig'' clock0 frames0 world0 = (Inr (), world0)
   \<and> files (snd (logconfig_module ''__main__'' clock0 frames0 world0)) ''logs/app.log'' =
       Some (''DEBUG:    2026-11-03 14:27:05,007 - __main__ - debug message'' @ [CHR 0x0A] @
           ''INFO:    2026-11-03 14:27:05,007 - __main__ - info message'' @ [CHR 0x0A] @
           ''WARNING:    2026-11-03 14:27:05,007 - __main__ - warning message'' @ [CHR 0x0A] @
           ''ERROR:    2026-11-03 14:27:05,007 - __main__ - error message'' @ [CHR 0x0A] @
           ''CRITICAL:    2026-11-03 14:27:05,007 - __main__ - critical message'' @ [CHR 0x0A] @
           ''ERROR:    2026-11-03 14:27:05,007 - __main__ - unknown error'' @ [CHR 0x0A] @
           ''Traceback (most recent call last):'' @ [CHR 0x0A] @
           ''  File '' @ [CHR 0x22] @ ''logconfig.py'' @ [CHR 0x22] @ '', line 73, in <module>'' @ [CHR 0x0A] @
           ''    1/0'' @ [CHR 0x0A] @
           ''ZeroDivisionError: division by zero'' @ [CHR 0x0A])"
proof -
  have h1: "can_open world0"
    by (simp add: can_open_def world0_def)
  have h2: "loggerDict world0 ''__main__'' = None"
    by (simp add: world0_def)
  have t: "formatTime file_formatter (makeRecord n lvl m ei time0) = ''2026-11-03 14:27:05,007''"
    for n lvl m ei
    by (simp add: time_defs file_formatter_def makeRecord_def time0_def)
  have i: "files (snd (app_logger \<lparr>log_name = ''__main__''\<rparr> world0)) ''logs/app.log'' = Some []
           \<and> offsets (snd (app_logger \<lparr>log_name = ''__main__''\<rparr> world0)) (next_id world0)
               = length ([] :: string)"
    using h1 by (simp add: app_logger_files app_logger_offsets)
  have e: "files (foldl (\<lambda>v r.
                emit (StreamHandler (Suc (next_id world0)) Stderr DEBUG (Some stream_formatter)) r
                  (emit (FileHandler (next_id world0) ''logs/app.log'' ''w'' ''utf-8'' DEBUG
                           (Some file_formatter)) r v))
              (snd (app_logger \<lparr>log_name = ''__main__''\<rparr> world0))
              [makeRecord ''__main__'' DEBUG ''debug message'' None (clock0 0),
               makeRecord ''__main__'' INFO ''info message'' None (clock0 1),
               makeRecord ''__main__'' WARNING ''warning message'' None (clock0 2),
               makeRecord ''__main__'' ERROR ''error message'' None (clock0 3),
               makeRecord ''__main__'' CRITICAL ''critical message'' None (clock0 4),
               makeRecord ''__main__'' ERROR ''unknown error''
                 (Some (ZeroDivisionError ''division by zero'', frames0)) (clock0 5)])
            ''logs/app.log'' =
       Some (''DEBUG:    2026-11-03 14:27:05,007 - __main__ - debug message'' @ [CHR 0x0A] @
           ''INFO:    2026-11-03 14:27:05,007 - __main__ - info message'' @ [CHR 0x0A] @
           ''WARNING:    2026-11-03 14:27:05,007 - __main__ - warning message'' @ [CHR 0x0A] @
           ''ERROR:    2026-11-03 14:27:05,007 - __main__ - error message'' @ [CHR 0x0A] @
           ''CRITICAL:    2026-11-03 14:27:05,007 - __main__ - critical message'' @ [CHR 0x0A] @
           ''ERROR:    2026-11-03 14:27:05,007 - __main__ - unknown error'' @ [CHR 0x0A] @
           ''Traceback (most recent call last):'' @ [CHR 0x0A] @
           ''  File '' @ [CHR 0x22] @ ''logconfig.py'' @ [CHR 0x22] @ '', line 73, in <module>'' @ [CHR 0x0A] @
           ''    1/0'' @ [CHR 0x0A] @
           ''ZeroDivisionError: division by zero'' @ [CHR 0x0A])"
    unfolding foldl_emit_files [OF i [THEN conjunct1] i [THEN conjunct2]]
    by (simp add: file_line_def t clock0_def makeRecord_fields getLevelName_def level_defs
        formatException_def exc_name_def exc_message_def frames0_def NL_def Let_def)
  have r: "handlers_of world0 ''root'' = []"
    by (simp add: handlers_of_def world0_def)
  show ?thesis
    using main_emits_samples_then_exception [OF h1 h2, of clock0 frames0 "''core.logconfig''"] e
    by (simp add: r)
qed

subsection \<open>A log file that cannot be opened (C8)\<close>




subsection \<open>The console stream (C9)\<close>

text \<open>
  Claim C9. The console handler that \<open>app_logger\<close> attaches (the last handler of the logger)
  is a \<open>StreamHandler\<close> built without a stream argument, hence bound to \<open>sys.stderr\<close>: a record
  emitted through it is appended to standard error and leaves standard output unchanged.
  If no handler attached to any logger before writes to standard output, no logging call
  on the returned logger writes to standard output.
\<close>

theorem console_sink_writes_stderr:
  assumes "can_open w" and "ids_below w (log_name self)"
  shows "last (handlers_of (snd (app_logger self w)) (log_name self))
           = StreamHandler (Suc (next_id w)) Stderr DEBUG (Some stream_formatter)
       \<and> snd (new_StreamHandler None v) = StreamHandler (next_id v) Stderr NOTSET None
       \<and> stdout (emit (StreamHandler (Suc (next_id w)) Stderr DEBUG (Some stream_formatter)) r v)
           = stdout v
       \<and> (\<forall>m. format_record (escape_codes v) stream_formatter r = Some m \<longrightarrow>
            stderr (emit (StreamHandler (Suc (next_id w)) Stderr DEBUG (Some stream_formatter)) r v)
              = stderr v @ m @ [NL])
       \<and> (no_stdout_handler w \<longrightarrow>
            stdout (logger_log (log_name self) lvl m' ei now (snd (app_logger self w))) = stdout w)"
proof -
  let ?w' = "snd (app_logger self w)"
  let ?sh = "StreamHandler (Suc (next_id w)) Stderr DEBUG (Some stream_formatter)"
  have hs: "handlers_of ?w' (log_name self) =
              handlers_of w (log_name self) @
                [FileHandler (next_id w) ''logs/app.log'' ''w'' ''utf-8'' DEBUG (Some file_formatter), ?sh]"
    by (rule app_logger_handlers [OF assms])
  have a: "last (handlers_of ?w' (log_name self)) = ?sh"
    by (simp add: hs)
  have b: "snd (new_StreamHandler None v) = StreamHandler (next_id v) Stderr NOTSET None"
    by (simp add: new_StreamHandler_def)
  have c: "stdout (emit ?sh r v) = stdout v"
    by (simp add: emit_stdout)
  have d: "\<forall>m. format_record (escape_codes v) stream_formatter r = Some m \<longrightarrow>
             stderr (emit ?sh r v) = stderr v @ m @ [NL]"
    by (simp add: emit_def handler_format_def stream_write_def)
  have e: "stdout (logger_log (log_name self) lvl m' ei now ?w') = stdout w"
    if none: "no_stdout_handler w"
    using logger_log_stdout [OF app_logger_no_stdout [OF assms none]]
    by (simp add: app_logger_streams)
  from a b c d e show ?thesis
    by blast
qed

theorem console_sink_writes_stderr_witness:
  "last (handlers_of (snd (app_logger \<lparr>log_name = ''test''\<rparr> world0)) ''test'')
     = StreamHandler 1 Stderr DEBUG (Some stream_formatter)
   \<and> stderr (emit (StreamHandler 1 Stderr DEBUG (Some stream_formatter)) record0 world0) =
       ([CHR 0x1B] @ ''[33mWARNING'' @ [CHR 0x1B] @ ''[0m:    [2026/Nov/03 14:27:05,'' @ [CHR 0x1B] @ ''[1;90m007'' @ [CHR 0x1B] @ ''[0m] - {{'' @ [CHR 0x1B] @ ''[38;2;235;9;220mtest'' @ [CHR 0x1B] @ ''[0m}} @'' @ [CHR 0x1B] @ ''[33mlow disk'' @ [CHR 0x1B] @ ''[0m'' @ [CHR 0x0A])
   \<and> stdout (emit (StreamHandler 1 Stderr DEBUG (Some stream_formatter)) record0 world0) = []
   \<and> stdout (logger_log ''test'' WARNING ''low disk'' None time0
        (snd (app_logger \<lparr>log_name = ''test''\<rparr> world0))) = []"
proof -
  have h1: "can_open world0"
    by (simp add: can_open_def world0_def)
  have h2: "ids_below world0 (log_name \<lparr>log_name = ''test''\<rparr>)"
    by (simp add: ids_below_def handlers_of_def world0_def)
  have i: "next_id world0 = 0 \<and> no_stdout_handler world0 \<and> stdout world0 = []
           \<and> stderr world0 = [] \<and> escape_codes world0 = codes0"
    by (simp add: no_stdout_handler_def handlers_of_def world0_def)
  show ?thesis
    using console_sink_writes_stderr [OF h1 h2, of world0 record0 WARNING "''low disk''" None time0] i
    by (simp add: console_record0 NL_def)
qed

subsection \<open>The banner (C10)\<close>

text \<open>
  Claim C10. Running the body of \<open>dev.py\<close>, under any \<open>__name__\<close>, prints exactly two
  renderables: first the centred logo (the banner lines joined by line feeds, in bold
  magenta), then the centred table titled with the rocket emoji and \<open>DEVELOPER INFO\<close>, whose
  rows are \<open>GITHUB\<close>, \<open>GITLAB\<close>, \<open>LINKEDIN\<close>, \<open>WEBSITE\<close> in this order, each with its fixed
  second cell.
\<close>

theorem dev_module_prints_logo_then_table:
  "printed (dev_module n) =
     [Align_center (Text (join [NL] BANNER) ''bold magenta''),
      Align_center (Table
        \<lparr>title = Some ([CHR 0xF0, CHR 0x9F, CHR 0x9A, CHR 0x80] @ '' DEVELOPER INFO''),
         show_lines = True,
         title_style = Some ''bold underline yellow on black'',
         columns =
           [\<lparr>header = ''PLATFORM'', justify = ''center'', style = ''cyan'', no_wrap = True\<rparr>,
            \<lparr>header = ''USERNAME / URL'', justify = ''left'', style = ''magenta'', no_wrap = False\<rparr>],
         rows =
           [[''GITHUB'', ''Akhil-Biswas''],
            [''GITLAB'', ''Akhil-Biswas''],
            [''LINKEDIN'', ''akhilbiswas-radhe''],
            [''WEBSITE'', ''akhil-biswas.netlify.app'']]\<rparr>)]"
  by (simp add: dev_module_def banner_def logo_def Console_def console_print_def new_Table_def
      add_column_def add_row_def)

end
